theory Spec2Isabelle
  imports Complex_Main
begin

section \<open>Numbers\<close>

text \<open>
  The entries of a tensor are floating-point values: the finite values, which are reals,
  and the three special values of IEEE 754 arithmetic. Zero is unsigned. An operation on
  finite operands computes the exact real result and rounds it to the format of the
  tensor; the rounding \<open>rnd\<close> is a parameter of every operation. Two roundings are of
  interest: \<open>float32\<close> below, the arithmetic the tensors of the program have, and
  \<open>Fin\<close>, which does not round at all (exact arithmetic). An exact result of zero is
  zero in every format and is not passed to \<open>rnd\<close>. Division by zero yields an infinity
  or NaN, as it does in the program.
\<close>

datatype jsnum = Fin real | PInf | NInf | NaN

definition rounded :: "(real \<Rightarrow> jsnum) \<Rightarrow> real \<Rightarrow> jsnum" where
  "rounded rnd x = (if x = 0 then Fin 0 else rnd x)"

fun fpos :: "jsnum \<Rightarrow> bool" where
  "fpos (Fin a) = (0 \<le> a)"
| "fpos PInf = True"
| "fpos NInf = False"
| "fpos NaN = False"

fun fadd :: "(real \<Rightarrow> jsnum) \<Rightarrow> jsnum \<Rightarrow> jsnum \<Rightarrow> jsnum" where
  "fadd rnd (Fin a) (Fin b) = rounded rnd (a + b)"
| "fadd rnd (Fin a) y = y"
| "fadd rnd x (Fin b) = x"
| "fadd rnd PInf PInf = PInf"
| "fadd rnd NInf NInf = NInf"
| "fadd rnd x y = NaN"

fun fsub :: "(real \<Rightarrow> jsnum) \<Rightarrow> jsnum \<Rightarrow> jsnum \<Rightarrow> jsnum" where
  "fsub rnd (Fin a) (Fin b) = rounded rnd (a - b)"
| "fsub rnd (Fin a) PInf = NInf"
| "fsub rnd (Fin a) NInf = PInf"
| "fsub rnd (Fin a) NaN = NaN"
| "fsub rnd x (Fin b) = x"
| "fsub rnd PInf NInf = PInf"
| "fsub rnd NInf PInf = NInf"
| "fsub rnd x y = NaN"

fun fmul :: "(real \<Rightarrow> jsnum) \<Rightarrow> jsnum \<Rightarrow> jsnum \<Rightarrow> jsnum" where
  "fmul rnd (Fin a) (Fin b) = rounded rnd (a * b)"
| "fmul rnd x y =
     (if x = NaN \<or> y = NaN \<or> x = Fin 0 \<or> y = Fin 0 then NaN
      else if fpos x = fpos y then PInf else NInf)"

fun fdiv :: "(real \<Rightarrow> jsnum) \<Rightarrow> jsnum \<Rightarrow> jsnum \<Rightarrow> jsnum" where
  "fdiv rnd (Fin a) (Fin b) =
     (if b = 0 then (if a = 0 then NaN else if 0 < a then PInf else NInf)
      else rounded rnd (a / b))"
| "fdiv rnd (Fin a) PInf = Fin 0"
| "fdiv rnd (Fin a) NInf = Fin 0"
| "fdiv rnd PInf (Fin b) = (if 0 \<le> b then PInf else NInf)"
| "fdiv rnd NInf (Fin b) = (if 0 \<le> b then NInf else PInf)"
| "fdiv rnd x y = NaN"

fun fsqrt :: "(real \<Rightarrow> jsnum) \<Rightarrow> jsnum \<Rightarrow> jsnum" where
  "fsqrt rnd (Fin a) = (if a < 0 then NaN else rounded rnd (sqrt a))"
| "fsqrt rnd PInf = PInf"
| "fsqrt rnd x = NaN"

fun flog :: "(real \<Rightarrow> jsnum) \<Rightarrow> jsnum \<Rightarrow> jsnum" where
  "flog rnd (Fin a) = (if a < 0 then NaN else if a = 0 then NInf else rounded rnd (ln a))"
| "flog rnd PInf = PInf"
| "flog rnd x = NaN"

text \<open>The comparison \<open>x < y\<close> of the program: false whenever an operand is NaN.\<close>

fun flt :: "jsnum \<Rightarrow> jsnum \<Rightarrow> bool" where
  "flt (Fin a) (Fin b) = (a < b)"
| "flt (Fin a) PInf = True"
| "flt NInf (Fin b) = True"
| "flt NInf PInf = True"
| "flt x y = False"

definition is_nan_or_inf :: "jsnum \<Rightarrow> bool" where
  "is_nan_or_inf x = (case x of Fin a \<Rightarrow> False | _ \<Rightarrow> True)"

text \<open>A JavaScript number stored into a tensor is rounded to the tensor's format.\<close>

definition store :: "(real \<Rightarrow> jsnum) \<Rightarrow> jsnum \<Rightarrow> jsnum" where
  "store rnd x = (case x of Fin a \<Rightarrow> rounded rnd a | _ \<Rightarrow> x)"

subsection \<open>Rounding to float32\<close>

text \<open>
  Round to nearest, ties to even, in binary32: 24 significant bits, exponents from -126 to
  127, gradual underflow, overflow to an infinity. \<open>rne\<close> rounds a real to the nearest
  integer, a tie to the even one. \<open>fexp x\<close> is the exponent of the binade of a positive
  \<open>x\<close> and \<open>ulp x\<close> the spacing of the float32 values there; \<open>round_pos\<close> rounds a
  positive real to that grid.
\<close>

definition rne :: "real \<Rightarrow> int" where
  "rne q =
     (let f = \<lfloor>q\<rfloor> in
      if q - of_int f < 1 / 2 then f
      else if 1 / 2 < q - of_int f then f + 1
      else if even f then f else f + 1)"

definition fexp :: "real \<Rightarrow> int" where
  "fexp x = max (- 126) \<lfloor>log 2 x\<rfloor>"

definition ulp :: "real \<Rightarrow> real" where
  "ulp x = 2 powi (fexp x - 23)"

definition round_pos :: "real \<Rightarrow> real" where
  "round_pos x = of_int (rne (x / ulp x)) * ulp x"

definition float32 :: "real \<Rightarrow> jsnum" where
  "float32 x =
     (if x = 0 then Fin 0
      else if 0 < x then (if 2 ^ 128 \<le> round_pos x then PInf else Fin (round_pos x))
      else (if 2 ^ 128 \<le> round_pos (- x) then NInf else Fin (- round_pos (- x))))"

text \<open>
  What a proof about the order of results needs of a rounding: 1 is not rounded, and a
  positive real below one that rounds to a finite value rounds to a finite value that is
  not negative and not larger. \<open>float32\<close> and \<open>Fin\<close> are such roundings.
\<close>

definition monotone_rounding :: "(real \<Rightarrow> jsnum) \<Rightarrow> bool" where
  "monotone_rounding rnd \<longleftrightarrow>
     rnd 1 = Fin 1 \<and>
     (\<forall>x y b. 0 < x \<and> x \<le> y \<and> rnd y = Fin b \<longrightarrow> (\<exists>a. rnd x = Fin a \<and> 0 \<le> a \<and> a \<le> b))"

section \<open>Errors and values of the program\<close>

text \<open>
  Every exception the program can raise is a value. \<open>ReferenceError x\<close>: the identifier
  \<open>x\<close> is not defined. \<open>NotAFunction m\<close>: the TypeError of calling \<open>v.m(...)\<close> where
  \<open>v\<close> has no method \<open>m\<close>. \<open>PropertyOfUndefined m\<close>: the TypeError of reading \<open>m\<close>
  from \<open>undefined\<close>. \<open>NotATensor op\<close>: the Error of TensorFlow.js when an operand of \<open>op\<close> is
  neither a tensor nor convertible to one. \<open>BroadcastError\<close>, \<open>AxisError\<close>, \<open>SliceError\<close>:
  the Errors of TensorFlow.js for incompatible shapes, an axis outside the rank, and a
  slice outside the tensor. \<open>Unmodelled\<close> marks a use of the library that
  normalization.js never makes and that is left out of the model.
\<close>

datatype error =
    ReferenceError string
  | NotAFunction string
  | PropertyOfUndefined string
  | NotATensor string
  | BroadcastError
  | AxisError
  | SliceError
  | Unmodelled

text \<open>
  A tensor of rank 0, 1 or 2. A rank-2 tensor of shape \<open>[numSamples, numFeatures]\<close> is the
  list of its rows; it is rectangular when every row has the same length.
\<close>

datatype tensor = T0 jsnum | T1 "jsnum list" | T2 "jsnum list list"

datatype jsval =
    Undefined
  | Number jsnum
  | Array "jsval list"
  | Tensor tensor
  | Object "(string \<times> jsval) list"
  | TfNamespace

definition bindE :: "error + 'a \<Rightarrow> ('a \<Rightarrow> error + 'b) \<Rightarrow> error + 'b" where
  "bindE m f = (case m of Inl e \<Rightarrow> Inl e | Inr x \<Rightarrow> f x)"

fun sequenceE :: "(error + 'a) list \<Rightarrow> error + 'a list" where
  "sequenceE [] = Inr []"
| "sequenceE (m # ms) = bindE m (\<lambda>x. bindE (sequenceE ms) (\<lambda>xs. Inr (x # xs)))"

text \<open>The \<open>n\<close>-th argument of a call; a missing argument is \<open>undefined\<close>.\<close>

definition arg :: "nat \<Rightarrow> jsval list \<Rightarrow> jsval" where
  "arg n args = (if n < length args then args ! n else Undefined)"

text \<open>
  Destructuring \<open>const {k} = v\<close> and property access: a key that the object does not have
  reads as \<open>undefined\<close>.
\<close>

fun get_prop :: "jsval \<Rightarrow> string \<Rightarrow> error + jsval" where
  "get_prop (Object kvs) k = Inr (case map_of kvs k of None \<Rightarrow> Undefined | Some v \<Rightarrow> v)"
| "get_prop Undefined k = Inl (PropertyOfUndefined k)"
| "get_prop v k = Inl Unmodelled"

section \<open>The tensor library\<close>

text \<open>
  normalization.js computes through the tensors of TensorFlow.js, a dependency of the
  repository and not part of it. The library is modelled from its documented behaviour, for
  tensors of rank at most 2 and for the calls that normalization.js makes.
\<close>

text \<open>
  \<open>convertToTensor\<close> of TensorFlow.js: every operation passes its operands through it. A
  tensor is taken as it is, a number becomes a scalar of the tensor's format,
  \<open>undefined\<close> is rejected.
\<close>

fun convertToTensor :: "(real \<Rightarrow> jsnum) \<Rightarrow> jsval \<Rightarrow> string \<Rightarrow> error + tensor" where
  "convertToTensor rnd (Tensor t) opname = Inr t"
| "convertToTensor rnd (Number x) opname = Inr (T0 (store rnd x))"
| "convertToTensor rnd Undefined opname = Inl (NotATensor opname)"
| "convertToTensor rnd (Object kvs) opname = Inl (NotATensor opname)"
| "convertToTensor rnd TfNamespace opname = Inl (NotATensor opname)"
| "convertToTensor rnd (Array xs) opname = Inl Unmodelled"

fun map_tensor :: "(jsnum \<Rightarrow> jsnum) \<Rightarrow> tensor \<Rightarrow> tensor" where
  "map_tensor f (T0 x) = T0 (f x)"
| "map_tensor f (T1 v) = T1 (map f v)"
| "map_tensor f (T2 rows) = T2 (map (map f) rows)"

text \<open>
  Broadcasting of a binary operation. Shapes are aligned at the last dimension, a missing
  leading dimension counts as 1, and a dimension of size 1 is stretched to the other
  operand's size; any other mismatch is an error. The result has the larger rank.
\<close>

fun rank :: "tensor \<Rightarrow> nat" where
  "rank (T0 x) = 0"
| "rank (T1 v) = 1"
| "rank (T2 rows) = 2"

fun as2d :: "tensor \<Rightarrow> jsnum list list" where
  "as2d (T0 x) = [[x]]"
| "as2d (T1 v) = [v]"
| "as2d (T2 rows) = rows"

definition of2d :: "nat \<Rightarrow> jsnum list list \<Rightarrow> tensor" where
  "of2d r rows =
     (if r = 0 then T0 (hd (hd rows)) else if r = 1 then T1 (hd rows) else T2 rows)"

definition broadcast_row ::
  "(jsnum \<Rightarrow> jsnum \<Rightarrow> jsnum) \<Rightarrow> jsnum list \<Rightarrow> jsnum list \<Rightarrow> error + jsnum list" where
  "broadcast_row f xs ys =
     (if length xs = length ys then Inr (map2 f xs ys)
      else if length xs = 1 then Inr (map (f (hd xs)) ys)
      else if length ys = 1 then Inr (map (\<lambda>x. f x (hd ys)) xs)
      else Inl BroadcastError)"

definition broadcast_rows ::
  "(jsnum \<Rightarrow> jsnum \<Rightarrow> jsnum) \<Rightarrow> jsnum list list \<Rightarrow> jsnum list list \<Rightarrow> error + jsnum list list" where
  "broadcast_rows f a b =
     (if length a = length b then sequenceE (map2 (broadcast_row f) a b)
      else if length a = 1 then sequenceE (map (broadcast_row f (hd a)) b)
      else if length b = 1 then sequenceE (map (\<lambda>r. broadcast_row f r (hd b)) a)
      else Inl BroadcastError)"

definition broadcast :: "(jsnum \<Rightarrow> jsnum \<Rightarrow> jsnum) \<Rightarrow> tensor \<Rightarrow> tensor \<Rightarrow> error + tensor" where
  "broadcast f a b =
     bindE (broadcast_rows f (as2d a) (as2d b)) (\<lambda>rows. Inr (of2d (max (rank a) (rank b)) rows))"

text \<open>
  Reductions along axis 0. For a rank-2 tensor the result has one entry per column.
  \<open>mean\<close> divides every entry by the count, itself a scalar of the tensor's format, and
  sums the quotients from 0 on, every division and addition rounding; \<open>min\<close> and \<open>max\<close>
  scan the entries from the first one on, comparing with \<open><\<close> and \<open>>\<close>, and do not
  round.
\<close>

definition fsum :: "(real \<Rightarrow> jsnum) \<Rightarrow> jsnum list \<Rightarrow> jsnum" where
  "fsum rnd xs = foldl (fadd rnd) (Fin 0) xs"

definition rmean :: "(real \<Rightarrow> jsnum) \<Rightarrow> jsnum list \<Rightarrow> jsnum" where
  "rmean rnd xs = fsum rnd (map (\<lambda>x. fdiv rnd x (rounded rnd (real (length xs)))) xs)"

fun rmin :: "jsnum list \<Rightarrow> jsnum" where
  "rmin [] = NaN"
| "rmin (x # xs) = foldl (\<lambda>m v. if flt v m then v else m) x xs"

fun rmax :: "jsnum list \<Rightarrow> jsnum" where
  "rmax [] = NaN"
| "rmax (x # xs) = foldl (\<lambda>m v. if flt m v then v else m) x xs"

definition ncols :: "'a list list \<Rightarrow> nat" where
  "ncols rows = (case rows of [] \<Rightarrow> 0 | r # rs \<Rightarrow> length r)"

definition column :: "'a list list \<Rightarrow> nat \<Rightarrow> 'a list" where
  "column rows j = map (\<lambda>r. r ! j) rows"

fun reduce0 :: "(jsnum list \<Rightarrow> jsnum) \<Rightarrow> tensor \<Rightarrow> error + tensor" where
  "reduce0 f (T0 x) = Inl AxisError"
| "reduce0 f (T1 v) = Inr (T0 (f v))"
| "reduce0 f (T2 rows) = Inr (T1 (map (\<lambda>j. f (column rows j)) [0..<ncols rows]))"

text \<open>The methods of a tensor, as functions of the receiver and the argument list.\<close>

definition t_reduce :: "(jsnum list \<Rightarrow> jsnum) \<Rightarrow> tensor \<Rightarrow> jsval list \<Rightarrow> error + jsval" where
  "t_reduce f t args =
     (if args = [Number (Fin 0)] then bindE (reduce0 f t) (\<lambda>r. Inr (Tensor r))
      else Inl Unmodelled)"

definition t_binop ::
  "(real \<Rightarrow> jsnum) \<Rightarrow> string \<Rightarrow> (jsnum \<Rightarrow> jsnum \<Rightarrow> jsnum) \<Rightarrow> tensor \<Rightarrow> jsval list \<Rightarrow>
     error + jsval" where
  "t_binop rnd opname f a args =
     bindE (convertToTensor rnd (arg 0 args) opname) (\<lambda>b.
     bindE (broadcast f a b) (\<lambda>r. Inr (Tensor r)))"

definition t_unop :: "(jsnum \<Rightarrow> jsnum) \<Rightarrow> tensor \<Rightarrow> jsval list \<Rightarrow> error + jsval" where
  "t_unop f t args = Inr (Tensor (map_tensor f t))"

text \<open>
  \<open>x.slice(begin, size)\<close>: the second argument is a size, not an end index. With
  one-element arrays the slice is taken along axis 0 and is refused when
  \<open>begin + size\<close> exceeds the extent of that axis.
\<close>

definition slice_list :: "nat \<Rightarrow> nat \<Rightarrow> 'a list \<Rightarrow> error + 'a list" where
  "slice_list b n xs = (if b + n \<le> length xs then Inr (take n (drop b xs)) else Inl SliceError)"

definition as_index :: "jsval \<Rightarrow> nat option" where
  "as_index v =
     (case v of
        Array [Number (Fin a)] \<Rightarrow> (if 0 \<le> a \<and> a = of_int \<lfloor>a\<rfloor> then Some (nat \<lfloor>a\<rfloor>) else None)
      | _ \<Rightarrow> None)"

definition t_slice :: "tensor \<Rightarrow> jsval list \<Rightarrow> error + jsval" where
  "t_slice t args =
     (case (as_index (arg 0 args), as_index (arg 1 args)) of
        (Some b, Some n) \<Rightarrow>
          (case t of
             T0 x \<Rightarrow> Inl SliceError
           | T1 v \<Rightarrow> bindE (slice_list b n v) (\<lambda>r. Inr (Tensor (T1 r)))
           | T2 rows \<Rightarrow> bindE (slice_list b n rows) (\<lambda>r. Inr (Tensor (T2 r))))
      | _ \<Rightarrow> Inl Unmodelled)"

text \<open>
  The methods of the class Tensor that normalization.js calls and that the class has. The
  class has no method named \<open>median\<close> or \<open>quartile\<close>.
\<close>

definition tensor_methods ::
  "(real \<Rightarrow> jsnum) \<Rightarrow> (string \<times> (tensor \<Rightarrow> jsval list \<Rightarrow> error + jsval)) list" where
  "tensor_methods rnd =
     [(''mean'', t_reduce (rmean rnd)),
      (''min'', t_reduce rmin),
      (''max'', t_reduce rmax),
      (''sub'', t_binop rnd ''sub'' (fsub rnd)),
      (''div'', t_binop rnd ''div'' (fdiv rnd)),
      (''square'', t_unop (\<lambda>x. fmul rnd x x)),
      (''sqrt'', t_unop (fsqrt rnd)),
      (''log'', t_unop (flog rnd)),
      (''slice'', t_slice)]"

text \<open>
  The call \<open>v.m(args)\<close>. On a tensor, a name outside the method table reads as
  \<open>undefined\<close> and calling it is a TypeError. The namespace \<open>tf\<close> is modelled with its
  function \<open>log\<close> only.
\<close>

fun invoke :: "(real \<Rightarrow> jsnum) \<Rightarrow> jsval \<Rightarrow> string \<Rightarrow> jsval list \<Rightarrow> error + jsval" where
  "invoke rnd (Tensor t) m args =
     (case map_of (tensor_methods rnd) m of
        None \<Rightarrow> Inl (NotAFunction m)
      | Some f \<Rightarrow> f t args)"
| "invoke rnd TfNamespace m args =
     (if m = ''log''
      then bindE (convertToTensor rnd (arg 0 args) ''log'')
             (\<lambda>x. Inr (Tensor (map_tensor (flog rnd) x)))
      else Inl Unmodelled)"
| "invoke rnd Undefined m args = Inl (PropertyOfUndefined m)"
| "invoke rnd v m args = Inl Unmodelled"

text \<open>
  A free identifier of the module is looked up among the globals of the environment the
  module runs in; an identifier that is not bound there is a ReferenceError.
\<close>

type_synonym globals = "string \<Rightarrow> jsval option"

definition global_ref :: "globals \<Rightarrow> string \<Rightarrow> error + jsval" where
  "global_ref g x = (case g x of None \<Rightarrow> Inl (ReferenceError x) | Some v \<Rightarrow> Inr v)"

section \<open>normalization.js\<close>

text \<open>
  Every function takes the rounding of the tensor arithmetic as its first argument and
  passes it on to each call of the library.
\<close>

text \<open>
  \<^verbatim>\<open>
  export function determineMeanAndStddev(data) {
    const dataMean = data.mean(0);
    const diffFromMean = data.sub(dataMean);
    const squaredDiffFromMean = diffFromMean.square();
    const variance = squaredDiffFromMean.mean(0);
    const dataStd = variance.sqrt();
    return { dataMean, dataStd };
  }
  \<close>
  The result is an object with the keys \<open>dataMean\<close> and \<open>dataStd\<close>.
\<close>

definition determineMeanAndStddev :: "(real \<Rightarrow> jsnum) \<Rightarrow> jsval \<Rightarrow> error + jsval" where
  "determineMeanAndStddev rnd data =
     bindE (invoke rnd data ''mean'' [Number (Fin 0)]) (\<lambda>dataMean.
     bindE (invoke rnd data ''sub'' [dataMean]) (\<lambda>diffFromMean.
     bindE (invoke rnd diffFromMean ''square'' []) (\<lambda>squaredDiffFromMean.
     bindE (invoke rnd squaredDiffFromMean ''mean'' [Number (Fin 0)]) (\<lambda>variance.
     bindE (invoke rnd variance ''sqrt'' []) (\<lambda>dataStd.
     Inr (Object [(''dataMean'', dataMean), (''dataStd'', dataStd)]))))))"

text \<open>
  \<^verbatim>\<open>
  export function normalizeTensor(data, dataMean, dataStd) {
    return data.sub(dataMean).div(dataStd);
  }
  \<close>
\<close>

definition normalizeTensor ::
  "(real \<Rightarrow> jsnum) \<Rightarrow> jsval \<Rightarrow> jsval \<Rightarrow> jsval \<Rightarrow> error + jsval" where
  "normalizeTensor rnd data dataMean dataStd =
     bindE (invoke rnd data ''sub'' [dataMean]) (\<lambda>centred.
     invoke rnd centred ''div'' [dataStd])"

text \<open>
  \<^verbatim>\<open>
  export function normalizeTensorWithZScore(data) {
    const { mean, std } = determineMeanAndStddev(data);
    return normalizeTensor(data, mean, std);
  }
  \<close>
  The destructuring reads the keys \<open>mean\<close> and \<open>std\<close> of the returned object.
\<close>

definition normalizeTensorWithZScore :: "(real \<Rightarrow> jsnum) \<Rightarrow> jsval \<Rightarrow> error + jsval" where
  "normalizeTensorWithZScore rnd data =
     bindE (determineMeanAndStddev rnd data) (\<lambda>stats.
     bindE (get_prop stats ''mean'') (\<lambda>mean.
     bindE (get_prop stats ''std'') (\<lambda>std.
     normalizeTensor rnd data mean std)))"

text \<open>
  \<^verbatim>\<open>
  export function normalizeTensorWithMinMax(data) {
    const min = data.min(0);
    const max = data.max(0);
    return data.sub(min).div(max.sub(min));
  }
  \<close>
\<close>

definition normalizeTensorWithMinMax :: "(real \<Rightarrow> jsnum) \<Rightarrow> jsval \<Rightarrow> error + jsval" where
  "normalizeTensorWithMinMax rnd data =
     bindE (invoke rnd data ''min'' [Number (Fin 0)]) (\<lambda>min.
     bindE (invoke rnd data ''max'' [Number (Fin 0)]) (\<lambda>max.
     bindE (invoke rnd data ''sub'' [min]) (\<lambda>shifted.
     bindE (invoke rnd max ''sub'' [min]) (\<lambda>range.
     invoke rnd shifted ''div'' [range]))))"

text \<open>
  \<^verbatim>\<open>
  export function normalizeTensorWithLogScaling(data) {
    return data.log().div(tf.log(10));
  }
  \<close>
  The module has no import and no declaration of \<open>tf\<close>: the identifier is free, and the
  globals of the environment are a further parameter of the function. The receiver
  \<open>data.log()\<close> is evaluated before the argument \<open>tf.log(10)\<close>.
\<close>

definition normalizeTensorWithLogScaling ::
  "(real \<Rightarrow> jsnum) \<Rightarrow> globals \<Rightarrow> jsval \<Rightarrow> error + jsval" where
  "normalizeTensorWithLogScaling rnd g data =
     bindE (invoke rnd data ''log'' []) (\<lambda>logged.
     bindE (global_ref g ''tf'') (\<lambda>tf.
     bindE (invoke rnd tf ''log'' [Number (Fin 10)]) (\<lambda>log10.
     invoke rnd logged ''div'' [log10])))"

text \<open>
  \<^verbatim>\<open>
  export function normalizeTensorWithRobustScaling(data) {
    const median = data.median(0);
    const quartiles = data.quartile(0);
    const min = quartiles.slice([0], [1]); // Lower quartile. Q1
    const max = quartiles.slice([2], [3]); // Upper quartile. Q3
    return data.sub(median).div(max.sub(min));
  }
  \<close>
\<close>

definition normalizeTensorWithRobustScaling :: "(real \<Rightarrow> jsnum) \<Rightarrow> jsval \<Rightarrow> error + jsval" where
  "normalizeTensorWithRobustScaling rnd data =
     bindE (invoke rnd data ''median'' [Number (Fin 0)]) (\<lambda>median.
     bindE (invoke rnd data ''quartile'' [Number (Fin 0)]) (\<lambda>quartiles.
     bindE (invoke rnd quartiles ''slice'' [Array [Number (Fin 0)], Array [Number (Fin 1)]]) (\<lambda>min.
     bindE (invoke rnd quartiles ''slice'' [Array [Number (Fin 2)], Array [Number (Fin 3)]]) (\<lambda>max.
     bindE (invoke rnd data ''sub'' [median]) (\<lambda>centred.
     bindE (invoke rnd max ''sub'' [min]) (\<lambda>iqr.
     invoke rnd centred ''div'' [iqr]))))))"

section \<open>The quantities the specification speaks of\<close>

text \<open>
  A matrix of finite numbers, given by its rows, as a value of the program; the average
  and the population standard deviation of a list of reals; the mean and the standard
  deviation of a column as \<open>determineMeanAndStddev\<close> computes them, operation by operation
  under a rounding; the finite value of an entry; and the composition that the
  specification describes for the z-score transform: the statistics of
  \<open>determineMeanAndStddev\<close>, read under the names it returns them by, passed on to
  \<open>normalizeTensor\<close>.
\<close>

definition average :: "real list \<Rightarrow> real" where
  "average xs = sum_list xs / real (length xs)"

definition population_stddev :: "real list \<Rightarrow> real" where
  "population_stddev xs = sqrt (average (map (\<lambda>x. (x - average xs)\<^sup>2) xs))"

definition matrix :: "real list list \<Rightarrow> jsval" where
  "matrix R = Tensor (T2 (map (map Fin) R))"

definition computed_mean :: "(real \<Rightarrow> jsnum) \<Rightarrow> real list \<Rightarrow> jsnum" where
  "computed_mean rnd xs = rmean rnd (map Fin xs)"

definition squared_diff :: "(real \<Rightarrow> jsnum) \<Rightarrow> jsnum \<Rightarrow> real \<Rightarrow> jsnum" where
  "squared_diff rnd m x = fmul rnd (fsub rnd (Fin x) m) (fsub rnd (Fin x) m)"

definition computed_stddev :: "(real \<Rightarrow> jsnum) \<Rightarrow> real list \<Rightarrow> jsnum" where
  "computed_stddev rnd xs =
     fsqrt rnd (rmean rnd (map (squared_diff rnd (computed_mean rnd xs)) xs))"

definition fin_value :: "jsnum \<Rightarrow> real" where
  "fin_value x = (case x of Fin a \<Rightarrow> a | _ \<Rightarrow> 0)"

definition spec_normalizeWithZScore :: "(real \<Rightarrow> jsnum) \<Rightarrow> jsval \<Rightarrow> error + jsval" where
  "spec_normalizeWithZScore rnd m =
     bindE (determineMeanAndStddev rnd m) (\<lambda>stats.
     bindE (get_prop stats ''dataMean'') (\<lambda>mean.
     bindE (get_prop stats ''dataStd'') (\<lambda>stdDev.
     normalizeTensor rnd m mean stdDev)))"

section \<open>Method calls and broadcasting\<close>

lemma invoke_mean: "invoke rnd (Tensor t) ''mean'' [Number (Fin 0)] = bindE (reduce0 (rmean rnd) t) (\<lambda>r. Inr (Tensor r))"
  by (simp add: tensor_methods_def t_reduce_def)

lemma invoke_min: "invoke rnd (Tensor t) ''min'' [Number (Fin 0)] = bindE (reduce0 rmin t) (\<lambda>r. Inr (Tensor r))"
  by (simp add: tensor_methods_def t_reduce_def)

lemma invoke_max: "invoke rnd (Tensor t) ''max'' [Number (Fin 0)] = bindE (reduce0 rmax t) (\<lambda>r. Inr (Tensor r))"
  by (simp add: tensor_methods_def t_reduce_def)

lemma invoke_sub: "invoke rnd (Tensor t) ''sub'' [x] =
    bindE (convertToTensor rnd x ''sub'') (\<lambda>b. bindE (broadcast (fsub rnd) t b) (\<lambda>r. Inr (Tensor r)))"
  by (simp add: tensor_methods_def t_binop_def arg_def)

lemma invoke_div: "invoke rnd (Tensor t) ''div'' [x] =
    bindE (convertToTensor rnd x ''div'') (\<lambda>b. bindE (broadcast (fdiv rnd) t b) (\<lambda>r. Inr (Tensor r)))"
  by (simp add: tensor_methods_def t_binop_def arg_def)

lemma invoke_square: "invoke rnd (Tensor t) ''square'' [] = Inr (Tensor (map_tensor (\<lambda>x. fmul rnd x x) t))"
  by (simp add: tensor_methods_def t_unop_def)

lemma invoke_sqrt: "invoke rnd (Tensor t) ''sqrt'' [] = Inr (Tensor (map_tensor (fsqrt rnd) t))"
  by (simp add: tensor_methods_def t_unop_def)

lemma invoke_log: "invoke rnd (Tensor t) ''log'' [] = Inr (Tensor (map_tensor (flog rnd) t))"
  by (simp add: tensor_methods_def t_unop_def)

lemma invoke_median: "invoke rnd (Tensor t) ''median'' args = Inl (NotAFunction ''median'')"
  by (simp add: tensor_methods_def)

lemma bindE_Inr [simp]: "bindE (Inr x) f = f x"
  by (simp add: bindE_def)

lemma bindE_Inl [simp]: "bindE (Inl e) f = Inl e"
  by (simp add: bindE_def)

lemma sequenceE_map_Inr: "sequenceE (map (\<lambda>x. Inr (f x)) xs) = Inr (map f xs)"
  by (induction xs) simp_all

lemma broadcast_T2_T1:
  assumes "\<forall>r\<in>set rows. length r = length v"
  shows "broadcast f (T2 rows) (T1 v) = Inr (T2 (map (\<lambda>r. map2 f r v) rows))"
proof -
  have eq: "map (\<lambda>r. broadcast_row f r v) rows = map (\<lambda>r. Inr (map2 f r v)) rows"
    using assms by (simp add: broadcast_row_def)
  have "broadcast_rows f rows [v] = Inr (map (\<lambda>r. map2 f r v) rows)"
  proof (cases "length rows = 1")
    case True
    then obtain r where r: "rows = [r]" by (cases rows) auto
    with assms show ?thesis by (simp add: broadcast_rows_def broadcast_row_def)
  next
    case False
    then show ?thesis by (simp add: broadcast_rows_def eq sequenceE_map_Inr)
  qed
  then show ?thesis by (simp add: broadcast_def of2d_def)
qed

lemma broadcast_T1_T1:
  "length a = length b \<Longrightarrow> broadcast f (T1 a) (T1 b) = Inr (T1 (map2 f a b))"
  by (simp add: broadcast_def broadcast_rows_def broadcast_row_def of2d_def)

lemma broadcast_row_scalar: "broadcast_row f r [c] = Inr (map (\<lambda>x. f x c) r)"
  by (cases r rule: list.exhaust[case_product list.exhaust]) (auto simp add: broadcast_row_def)

lemma broadcast_T2_T0: "broadcast f (T2 rows) (T0 c) = Inr (T2 (map (map (\<lambda>x. f x c)) rows))"
proof -
  have "broadcast_rows f rows [[c]] = Inr (map (map (\<lambda>x. f x c)) rows)"
  proof (cases "length rows = 1")
    case True
    then obtain r where r: "rows = [r]" by (cases rows) auto
    then show ?thesis by (simp add: broadcast_rows_def broadcast_row_scalar)
  next
    case False
    then show ?thesis by (simp add: broadcast_rows_def broadcast_row_scalar sequenceE_map_Inr)
  qed
  then show ?thesis by (simp add: broadcast_def of2d_def)
qed

section \<open>Columns, minima and maxima\<close>

lemma Min_insert_min: "finite S \<Longrightarrow> Min (insert (min x a) S) = Min (insert a (insert x S))"
  by (cases "S = {}") (simp_all add: min.commute min.left_commute min.assoc)

lemma Max_insert_max: "finite S \<Longrightarrow> Max (insert (max x a) S) = Max (insert a (insert x S))"
  by (cases "S = {}") (simp_all add: max.commute max.left_commute max.assoc)

lemma foldl_min_Fin:
  "foldl (\<lambda>m v. if flt v m then v else m) (Fin a) (map Fin xs) = Fin (Min (insert a (set xs)))"
proof (induction xs arbitrary: a)
  case Nil
  then show ?case by simp
next
  case (Cons x xs)
  have step: "(if flt (Fin x) (Fin a) then Fin x else Fin a) = Fin (min x a)"
    by (simp add: min_def)
  show ?case
    by (simp only: list.map foldl_Cons step Cons.IH list.set Min_insert_min [OF finite_set])
qed

lemma foldl_max_Fin:
  "foldl (\<lambda>m v. if flt m v then v else m) (Fin a) (map Fin xs) = Fin (Max (insert a (set xs)))"
proof (induction xs arbitrary: a)
  case Nil
  then show ?case by simp
next
  case (Cons x xs)
  have step: "(if flt (Fin a) (Fin x) then Fin x else Fin a) = Fin (max x a)"
    by (simp add: max_def)
  show ?case
    by (simp only: list.map foldl_Cons step Cons.IH list.set Max_insert_max [OF finite_set])
qed

lemma rmin_Fin: "xs \<noteq> [] \<Longrightarrow> rmin (map Fin xs) = Fin (Min (set xs))"
  by (cases xs) (simp_all add: foldl_min_Fin)

lemma rmax_Fin: "xs \<noteq> [] \<Longrightarrow> rmax (map Fin xs) = Fin (Max (set xs))"
  by (cases xs) (simp_all add: foldl_max_Fin)

lemma foldl_constant:
  assumes "\<forall>x\<in>set xs. x = c" and "f c c = c"
  shows "foldl f c xs = c"
  using assms by (induction xs) simp_all

lemma rmin_constant: "xs \<noteq> [] \<Longrightarrow> \<forall>x\<in>set xs. x = c \<Longrightarrow> rmin xs = c"
  by (cases xs) (simp_all add: foldl_constant)

lemma rmax_constant: "xs \<noteq> [] \<Longrightarrow> \<forall>x\<in>set xs. x = c \<Longrightarrow> rmax xs = c"
  by (cases xs) (simp_all add: foldl_constant)

lemma ncols_rect: "rows \<noteq> [] \<Longrightarrow> \<forall>r\<in>set rows. length r = n \<Longrightarrow> ncols rows = n"
  by (cases rows) (simp_all add: ncols_def)

lemma column_map: "\<forall>r\<in>set rows. j < length r \<Longrightarrow> column (map (map f) rows) j = map f (column rows j)"
  by (simp add: column_def)

lemma length_column [simp]: "length (column rows j) = length rows"
  by (simp add: column_def)

lemma column_eq_Nil [simp]: "column rows j = [] \<longleftrightarrow> rows = []"
  by (simp add: column_def)

declare invoke.simps [simp del]

section \<open>What the transforms compute, under any rounding\<close>

lemma normalizeTensor_formula:
  assumes "\<forall>r\<in>set rows. length r = n" "length mean = n" "length std = n"
  shows "normalizeTensor rnd (Tensor (T2 rows)) (Tensor (T1 mean)) (Tensor (T1 std)) =
         Inr (Tensor (T2 (map (\<lambda>r. map (\<lambda>j. fdiv rnd (fsub rnd (r ! j) (mean ! j)) (std ! j)) [0..<n]) rows)))"
proof -
  have sub: "broadcast (fsub rnd) (T2 rows) (T1 mean) = Inr (T2 (map (\<lambda>r. map2 (fsub rnd) r mean) rows))"
    using assms by (intro broadcast_T2_T1) simp
  have dv: "broadcast (fdiv rnd) (T2 (map (\<lambda>r. map2 (fsub rnd) r mean) rows)) (T1 std) =
            Inr (T2 (map (\<lambda>r. map2 (fdiv rnd) r std) (map (\<lambda>r. map2 (fsub rnd) r mean) rows)))"
    using assms by (intro broadcast_T2_T1) simp
  have "map (\<lambda>r. map2 (fdiv rnd) r std) (map (\<lambda>r. map2 (fsub rnd) r mean) rows) =
        map (\<lambda>r. map (\<lambda>j. fdiv rnd (fsub rnd (r ! j) (mean ! j)) (std ! j)) [0..<n]) rows"
    using assms by (auto simp add: list_eq_iff_nth_eq)
  then show ?thesis
    by (simp add: normalizeTensor_def invoke_sub invoke_div sub dv)
qed

lemma minmax_formula:
  assumes "\<forall>r\<in>set rows. length r = ncols rows"
  shows "normalizeTensorWithMinMax rnd (Tensor (T2 rows)) =
         Inr (Tensor (T2 (map (\<lambda>r. map (\<lambda>j.
            fdiv rnd (fsub rnd (r ! j) (rmin (column rows j)))
                 (fsub rnd (rmax (column rows j)) (rmin (column rows j)))) [0..<ncols rows]) rows)))"
proof -
  let ?n = "ncols rows"
  let ?mn = "map (\<lambda>j. rmin (column rows j)) [0..<?n]"
  let ?mx = "map (\<lambda>j. rmax (column rows j)) [0..<?n]"
  have sub: "broadcast (fsub rnd) (T2 rows) (T1 ?mn) = Inr (T2 (map (\<lambda>r. map2 (fsub rnd) r ?mn) rows))"
    using assms by (intro broadcast_T2_T1) simp
  have rng: "broadcast (fsub rnd) (T1 ?mx) (T1 ?mn) = Inr (T1 (map2 (fsub rnd) ?mx ?mn))"
    by (intro broadcast_T1_T1) simp
  have dv: "broadcast (fdiv rnd) (T2 (map (\<lambda>r. map2 (fsub rnd) r ?mn) rows)) (T1 (map2 (fsub rnd) ?mx ?mn)) =
            Inr (T2 (map (\<lambda>r. map2 (fdiv rnd) r (map2 (fsub rnd) ?mx ?mn)) (map (\<lambda>r. map2 (fsub rnd) r ?mn) rows)))"
    using assms by (intro broadcast_T2_T1) simp
  have "map (\<lambda>r. map2 (fdiv rnd) r (map2 (fsub rnd) ?mx ?mn)) (map (\<lambda>r. map2 (fsub rnd) r ?mn) rows) =
        map (\<lambda>r. map (\<lambda>j. fdiv rnd (fsub rnd (r ! j) (rmin (column rows j)))
                 (fsub rnd (rmax (column rows j)) (rmin (column rows j)))) [0..<?n]) rows"
    using assms by (auto simp add: list_eq_iff_nth_eq)
  then show ?thesis
    by (simp add: normalizeTensorWithMinMax_def invoke_min invoke_max invoke_sub invoke_div sub rng dv)
qed

lemma minmax_matrix:
  assumes "R \<noteq> []" and "\<forall>r\<in>set R. length r = n"
  shows "normalizeTensorWithMinMax rnd (matrix R) =
           Inr (Tensor (T2 (map (\<lambda>r. map (\<lambda>j.
             fdiv rnd (fsub rnd (Fin (r ! j)) (Fin (Min (set (column R j)))))
                      (fsub rnd (Fin (Max (set (column R j)))) (Fin (Min (set (column R j))))))
               [0..<n]) R)))"
proof -
  let ?F = "map (map Fin) R"
  have n: "ncols ?F = n"
    using assms by (intro ncols_rect) auto
  have rect: "\<forall>r\<in>set ?F. length r = ncols ?F"
    using assms by (simp add: n)
  have mn: "rmin (column ?F j) = Fin (Min (set (column R j)))" if "j < n" for j
    using that assms by (simp add: column_map rmin_Fin)
  have mx: "rmax (column ?F j) = Fin (Max (set (column R j)))" if "j < n" for j
    using that assms by (simp add: column_map rmax_Fin)
  have "map (\<lambda>r. map (\<lambda>j. fdiv rnd (fsub rnd (r ! j) (rmin (column ?F j)))
                 (fsub rnd (rmax (column ?F j)) (rmin (column ?F j)))) [0..<n]) ?F =
        map (\<lambda>r. map (\<lambda>j.
             fdiv rnd (fsub rnd (Fin (r ! j)) (Fin (Min (set (column R j)))))
                      (fsub rnd (Fin (Max (set (column R j)))) (Fin (Min (set (column R j))))))
               [0..<n]) R"
    using assms by (simp add: mn mx del: fsub.simps fdiv.simps)
  then show ?thesis
    using minmax_formula [OF rect] by (simp only: matrix_def n)
qed

lemma determineMeanAndStddev_computed:
  assumes "R \<noteq> []" and "\<forall>r\<in>set R. length r = n"
  shows "determineMeanAndStddev rnd (matrix R) =
         Inr (Object
           [(''dataMean'', Tensor (T1 (map (\<lambda>j. computed_mean rnd (column R j)) [0..<n]))),
            (''dataStd'', Tensor (T1 (map (\<lambda>j. computed_stddev rnd (column R j)) [0..<n])))])"
proof -
  let ?F = "map (map Fin) R"
  let ?mu = "map (\<lambda>j. computed_mean rnd (column R j)) [0..<n]"
  let ?D = "map (\<lambda>r. map2 (fsub rnd) r ?mu) ?F"
  let ?S = "map (map (\<lambda>x. fmul rnd x x)) ?D"
  have n: "ncols ?F = n"
    using assms by (intro ncols_rect) auto
  have "rmean rnd (column ?F j) = computed_mean rnd (column R j)" if "j < n" for j
    using that assms by (simp add: column_map computed_mean_def)
  then have "map (\<lambda>j. rmean rnd (column ?F j)) [0..<n] = ?mu"
    by simp
  then have m: "invoke rnd (matrix R) ''mean'' [Number (Fin 0)] = Inr (Tensor (T1 ?mu))"
    by (simp add: matrix_def invoke_mean n)
  have "broadcast (fsub rnd) (T2 ?F) (T1 ?mu) = Inr (T2 ?D)"
    using assms by (intro broadcast_T2_T1) simp
  then have d: "invoke rnd (matrix R) ''sub'' [Tensor (T1 ?mu)] = Inr (Tensor (T2 ?D))"
    by (simp add: matrix_def invoke_sub)
  have s: "invoke rnd (Tensor (T2 ?D)) ''square'' [] = Inr (Tensor (T2 ?S))"
    by (simp add: invoke_square)
  have nS: "ncols ?S = n"
    using assms by (intro ncols_rect) auto
  have col: "column ?S j = map (squared_diff rnd (computed_mean rnd (column R j))) (column R j)"
    if "j < n" for j
    using that assms by (simp add: column_def squared_diff_def)
  have "rmean rnd (column ?S j) =
        rmean rnd (map (squared_diff rnd (computed_mean rnd (column R j))) (column R j))"
    if "j < n" for j
    by (simp only: col [OF that])
  then have "map (\<lambda>j. fsqrt rnd (rmean rnd (column ?S j))) [0..<n] =
             map (\<lambda>j. computed_stddev rnd (column R j)) [0..<n]"
    by (simp add: computed_stddev_def)
  then have q: "map (fsqrt rnd) (map (\<lambda>j. rmean rnd (column ?S j)) [0..<n]) =
             map (\<lambda>j. computed_stddev rnd (column R j)) [0..<n]"
    by (simp add: comp_def)
  have v: "invoke rnd (Tensor (T2 ?S)) ''mean'' [Number (Fin 0)] =
           Inr (Tensor (T1 (map (\<lambda>j. rmean rnd (column ?S j)) [0..<n])))"
    by (simp only: invoke_mean reduce0.simps bindE_Inr nS)
  show ?thesis
    unfolding determineMeanAndStddev_def m bindE_Inr d s v
    by (simp only: invoke_sqrt bindE_Inr map_tensor.simps q)
qed

section \<open>Exact arithmetic\<close>

lemma rounded_Fin [simp]: "rounded Fin x = Fin x"
  by (simp add: rounded_def)

lemma foldl_fadd_Fin: "foldl (fadd Fin) (Fin a) (map Fin xs) = Fin (a + sum_list xs)"
  by (induction xs arbitrary: a) (simp_all add: add.assoc)

lemma sum_list_divide: "sum_list (map (\<lambda>x. x / c) xs) = sum_list xs / (c :: real)"
  by (induction xs) (simp_all add: add_divide_distrib)

lemma rmean_exact: "rmean Fin (map Fin xs) = Fin (average xs)"
proof (cases "xs = []")
  case True
  then show ?thesis
    by (simp add: rmean_def fsum_def average_def)
next
  case False
  then have "map (\<lambda>x. fdiv Fin x (Fin (real (length xs)))) (map Fin xs) =
             map Fin (map (\<lambda>x. x / real (length xs)) xs)"
    by simp
  then show ?thesis
    by (simp add: rmean_def fsum_def foldl_fadd_Fin sum_list_divide average_def del: map_map)
qed

lemma computed_mean_exact: "computed_mean Fin xs = Fin (average xs)"
  by (simp add: computed_mean_def rmean_exact)

lemma average_nonneg: "\<forall>x\<in>set xs. 0 \<le> x \<Longrightarrow> 0 \<le> average xs"
  by (simp add: average_def sum_list_nonneg)

lemma computed_stddev_exact: "computed_stddev Fin xs = Fin (population_stddev xs)"
proof -
  have "map (squared_diff Fin (Fin (average xs))) xs = map Fin (map (\<lambda>x. (x - average xs)\<^sup>2) xs)"
    by (simp add: squared_diff_def power2_eq_square)
  moreover have "0 \<le> average (map (\<lambda>x. (x - average xs)\<^sup>2) xs)"
    by (intro average_nonneg) simp
  ultimately show ?thesis
    by (simp add: computed_stddev_def computed_mean_exact rmean_exact population_stddev_def
        del: map_map)
qed


lemma determineMeanAndStddev_matrix:
  assumes "R \<noteq> []" and "\<forall>r\<in>set R. length r = n"
  shows "determineMeanAndStddev Fin (matrix R) =
         Inr (Object
           [(''dataMean'', Tensor (T1 (map (\<lambda>j. Fin (average (column R j))) [0..<n]))),
            (''dataStd'', Tensor (T1 (map (\<lambda>j. Fin (population_stddev (column R j))) [0..<n])))])"
  using determineMeanAndStddev_computed [OF assms, of Fin]
  by (simp only: computed_mean_exact computed_stddev_exact)

lemma monotone_rounding_exact: "monotone_rounding Fin"
  by (simp add: monotone_rounding_def)

section \<open>Rounding to float32\<close>

lemma fexp_eqI:
  assumes "2 powi e \<le> x" and "x < 2 powi (e + 1)" and "- 126 \<le> e"
  shows "fexp x = e"
proof -
  have "0 < x"
    using assms(1) by (rule less_le_trans [rotated]) simp
  moreover have "2 powr of_int e \<le> x" and "x < 2 powr (of_int e + 1)"
    using assms(1,2) powr_real_of_int' [of 2 e] powr_real_of_int' [of 2 "e + 1"] by simp_all
  ultimately have "\<lfloor>log 2 x\<rfloor> = e"
    by (simp add: floor_log_eq_powr_iff)
  then show ?thesis
    using assms(3) by (simp add: fexp_def)
qed

lemma round_pos_eval:
  assumes "2 powi e \<le> x" and "x < 2 powi (e + 1)" and "- 126 \<le> e"
  shows "round_pos x = of_int (rne (x / 2 powi (e - 23))) * 2 powi (e - 23)"
  by (simp add: round_pos_def ulp_def fexp_eqI [OF assms])

lemma rne_eval:
  "rne q =
     (if q - of_int \<lfloor>q\<rfloor> < 1 / 2 then \<lfloor>q\<rfloor>
      else if 1 / 2 < q - of_int \<lfloor>q\<rfloor> then \<lfloor>q\<rfloor> + 1
      else if even \<lfloor>q\<rfloor> then \<lfloor>q\<rfloor> else \<lfloor>q\<rfloor> + 1)"
  by (simp add: rne_def Let_def)

lemma rne_of_int [simp]: "rne (of_int n) = n"
  by (simp add: rne_def)

lemma rne_lower: "\<lfloor>q\<rfloor> \<le> rne q"
  by (simp add: rne_def Let_def)

lemma rne_upper: "rne q \<le> \<lfloor>q\<rfloor> + 1"
  by (simp add: rne_def Let_def)

lemma rne_mono:
  assumes "q \<le> r"
  shows "rne q \<le> rne r"
proof (cases "\<lfloor>q\<rfloor> = \<lfloor>r\<rfloor>")
  case True
  then show ?thesis
    using assms by (auto simp add: rne_def Let_def)
next
  case False
  then have "\<lfloor>q\<rfloor> < \<lfloor>r\<rfloor>"
    using assms floor_mono [of q r] by simp
  then have "rne q \<le> \<lfloor>r\<rfloor>"
    using rne_upper [of q] by simp
  then show ?thesis
    using rne_lower [of r] by simp
qed

lemma rne_le_int: "q \<le> of_int n \<Longrightarrow> rne q \<le> n"
  using rne_mono [of q "of_int n"] by simp

lemma rne_ge_int: "of_int n \<le> q \<Longrightarrow> n \<le> rne q"
  using rne_mono [of "of_int n" q] by simp

lemma fexp_mono: "0 < x \<Longrightarrow> x \<le> y \<Longrightarrow> fexp x \<le> fexp y"
  unfolding fexp_def by (intro max.mono order_refl floor_mono) simp

lemma fexp_upper:
  assumes "0 < x"
  shows "x < 2 powi (fexp x + 1)"
proof -
  have "x < 2 powr (of_int \<lfloor>log 2 x\<rfloor> + 1)"
    using assms floor_log_eq_powr_iff [of x 2 "\<lfloor>log 2 x\<rfloor>"] by simp
  also have "\<dots> = 2 powi (\<lfloor>log 2 x\<rfloor> + 1)"
    using powr_real_of_int' [of 2 "\<lfloor>log 2 x\<rfloor> + 1"] by simp
  also have "\<dots> \<le> 2 powi (fexp x + 1)"
    by (intro power_int_increasing) (simp_all add: fexp_def)
  finally show ?thesis .
qed

lemma fexp_lower:
  assumes "0 < x" and "- 126 < fexp x"
  shows "2 powi (fexp x) \<le> x"
proof -
  have e: "fexp x = \<lfloor>log 2 x\<rfloor>"
    using assms(2) by (simp add: fexp_def max_def split: if_splits)
  have "2 powr of_int \<lfloor>log 2 x\<rfloor> \<le> x"
    using assms(1) floor_log_eq_powr_iff [of x 2 "\<lfloor>log 2 x\<rfloor>"] by simp
  then show ?thesis
    using powr_real_of_int' [of 2 "\<lfloor>log 2 x\<rfloor>"] by (simp add: e)
qed

lemma ulp_pos [simp]: "0 < ulp x"
  by (simp add: ulp_def)

lemma ulp_nonneg [simp]: "0 \<le> ulp x"
  by (simp add: ulp_def)

lemma round_pos_nonneg:
  assumes "0 < x"
  shows "0 \<le> round_pos x"
proof -
  have "0 \<le> x / ulp x"
    using assms by simp
  then have "0 \<le> rne (x / ulp x)"
    using rne_ge_int [of 0 "x / ulp x"] by simp
  then show ?thesis
    by (simp add: round_pos_def)
qed

lemma ulp_times_2_24: "2 ^ 24 * ulp x = 2 powi (fexp x + 1)"
proof -
  have "(2 :: real) powi 24 * 2 powi (fexp x - 23) = 2 powi (24 + (fexp x - 23))"
    by (rule power_int_add [symmetric]) simp
  moreover have "24 + (fexp x - 23) = fexp x + 1"
    by simp
  ultimately show ?thesis
    by (simp add: ulp_def)
qed

lemma ulp_times_2_23: "2 ^ 23 * ulp x = 2 powi (fexp x)"
proof -
  have "(2 :: real) powi 23 * 2 powi (fexp x - 23) = 2 powi (23 + (fexp x - 23))"
    by (rule power_int_add [symmetric]) simp
  moreover have "23 + (fexp x - 23) = fexp x"
    by simp
  ultimately show ?thesis
    by (simp add: ulp_def)
qed

lemma round_pos_le_binade:
  assumes "0 < x"
  shows "round_pos x \<le> 2 powi (fexp x + 1)"
proof -
  have "x < 2 ^ 24 * ulp x"
    using fexp_upper [OF assms] by (simp only: ulp_times_2_24)
  then have "x \<le> real_of_int (2 ^ 24) * ulp x"
    by simp
  then have "x / ulp x \<le> real_of_int (2 ^ 24)"
    by (simp only: pos_divide_le_eq [OF ulp_pos])
  then have "rne (x / ulp x) \<le> 2 ^ 24"
    by (rule rne_le_int)
  then have "real_of_int (rne (x / ulp x)) \<le> real_of_int (2 ^ 24)"
    by (simp only: of_int_le_iff)
  then have "real_of_int (rne (x / ulp x)) * ulp x \<le> real_of_int (2 ^ 24) * ulp x"
    by (rule mult_right_mono) simp
  also have "real_of_int (2 ^ 24) * ulp x = 2 powi (fexp x + 1)"
    using ulp_times_2_24 [of x] by simp
  finally show ?thesis
    by (simp add: round_pos_def)
qed

lemma round_pos_ge_binade:
  assumes "0 < x" and "- 126 < fexp x"
  shows "2 powi (fexp x) \<le> round_pos x"
proof -
  have "2 ^ 23 * ulp x \<le> x"
    using fexp_lower [OF assms] by (simp only: ulp_times_2_23)
  then have "real_of_int (2 ^ 23) * ulp x \<le> x"
    by simp
  then have "real_of_int (2 ^ 23) \<le> x / ulp x"
    by (simp only: pos_le_divide_eq [OF ulp_pos])
  then have "2 ^ 23 \<le> rne (x / ulp x)"
    by (rule rne_ge_int)
  then have "real_of_int (2 ^ 23) \<le> real_of_int (rne (x / ulp x))"
    by (simp only: of_int_le_iff)
  then have "real_of_int (2 ^ 23) * ulp x \<le> real_of_int (rne (x / ulp x)) * ulp x"
    by (rule mult_right_mono) simp
  moreover have "real_of_int (2 ^ 23) * ulp x = 2 powi (fexp x)"
    using ulp_times_2_23 [of x] by simp
  ultimately have "2 powi (fexp x) \<le> real_of_int (rne (x / ulp x)) * ulp x"
    by (simp only:)
  then show ?thesis
    by (simp only: round_pos_def)
qed

lemma round_pos_mono:
  assumes "0 < x" and "x \<le> y"
  shows "round_pos x \<le> round_pos y"
proof (cases "fexp x = fexp y")
  case True
  then have u: "ulp x = ulp y"
    by (simp add: ulp_def)
  have "x / ulp y \<le> y / ulp y"
    using assms(2) by (simp add: divide_right_mono)
  then have "rne (x / ulp y) \<le> rne (y / ulp y)"
    by (rule rne_mono)
  then have "of_int (rne (x / ulp y)) * ulp y \<le> of_int (rne (y / ulp y)) * ulp y"
    by (intro mult_right_mono) (simp_all only: of_int_le_iff ulp_pos less_imp_le)
  then show ?thesis
    by (simp add: round_pos_def u)
next
  case False
  then have lt: "fexp x < fexp y"
    using fexp_mono [OF assms] by simp
  have y: "0 < y"
    using assms by simp
  have "- 126 \<le> fexp x"
    by (simp add: fexp_def)
  then have "- 126 < fexp y"
    using lt by simp
  then have "2 powi (fexp y) \<le> round_pos y"
    using y by (intro round_pos_ge_binade)
  moreover have "round_pos x \<le> 2 powi (fexp x + 1)"
    using assms(1) by (rule round_pos_le_binade)
  moreover have "(2 :: real) powi (fexp x + 1) \<le> 2 powi (fexp y)"
    using lt by (intro power_int_increasing) simp_all
  ultimately show ?thesis
    by simp
qed

lemma float32_zero [simp]: "float32 0 = Fin 0"
  by (simp add: float32_def)

lemma float32_between:
  assumes "0 \<le> x" and "x \<le> y" and "float32 y = Fin b"
  shows "\<exists>a. float32 x = Fin a \<and> 0 \<le> a \<and> a \<le> b"
proof (cases "x = 0")
  case True
  have "0 \<le> b"
  proof (cases "y = 0")
    case True
    then show ?thesis using assms(3) by simp
  next
    case False
    then have "0 < y" using assms by simp
    then show ?thesis
      using assms(3) round_pos_nonneg [of y] by (auto simp add: float32_def split: if_splits)
  qed
  then show ?thesis
    using True by simp
next
  case False
  then have x: "0 < x" and y: "0 < y"
    using assms by simp_all
  have b: "round_pos y = b" and fin: "\<not> 2 ^ 128 \<le> round_pos y"
    using assms(3) y by (auto simp add: float32_def split: if_splits)
  have le: "round_pos x \<le> round_pos y"
    using x assms(2) by (rule round_pos_mono)
  then have "float32 x = Fin (round_pos x)"
    using x fin by (simp add: float32_def)
  then show ?thesis
    using le b round_pos_nonneg [OF x] by simp
qed

lemma float32_one: "float32 1 = Fin 1"
proof -
  have "round_pos 1 = 1"
    by (subst round_pos_eval [where e = 0]) (simp_all add: rne_eval)
  then show ?thesis
    by (simp add: float32_def)
qed

lemma float32_pos_eval:
  assumes "2 powi e \<le> x" and "x < 2 powi (e + 1)" and "- 126 \<le> e"
  shows "float32 x =
     (if 2 ^ 128 \<le> real_of_int (rne (x / 2 powi (e - 23))) * 2 powi (e - 23) then PInf
      else Fin (real_of_int (rne (x / 2 powi (e - 23))) * 2 powi (e - 23)))"
proof -
  have "0 < x"
    using assms(1) by (rule less_le_trans [rotated]) simp
  then show ?thesis
    by (simp add: float32_def round_pos_eval [OF assms])
qed


lemma monotone_rounding_float32: "monotone_rounding float32"
  unfolding monotone_rounding_def
proof (intro conjI allI impI)
  show "float32 1 = Fin 1"
    by (rule float32_one)
next
  fix x y b
  assume "0 < x \<and> x \<le> y \<and> float32 y = Fin b"
  then show "\<exists>a. float32 x = Fin a \<and> 0 \<le> a \<and> a \<le> b"
    using float32_between [of x y b] by simp
qed

lemma rounded_between:
  assumes "monotone_rounding rnd" and "0 \<le> x" and "x \<le> y" and "rnd y = Fin b" and "0 < y"
  shows "\<exists>a. rounded rnd x = Fin a \<and> 0 \<le> a \<and> a \<le> b"
proof (cases "x = 0")
  case True
  have "\<exists>a. rnd y = Fin a \<and> 0 \<le> a \<and> a \<le> b"
    using assms(1,4,5) unfolding monotone_rounding_def by blast
  then have "0 \<le> b"
    using assms(4) by auto
  then show ?thesis
    using True by (simp add: rounded_def)
next
  case False
  then have "0 < x"
    using assms(2) by simp
  then have "\<exists>a. rnd x = Fin a \<and> 0 \<le> a \<and> a \<le> b"
    using assms(1,3,4) unfolding monotone_rounding_def by blast
  then show ?thesis
    using False by (simp add: rounded_def)
qed

subsection \<open>Values of float32\<close>

lemma float32_2: "float32 2 = Fin 2"
  by (subst float32_pos_eval [where e = 1]) (simp_all add: rne_eval)


lemma float32_4: "float32 4 = Fin 4"
  by (subst float32_pos_eval [where e = 2]) (simp_all add: rne_eval)


lemma float32_8: "float32 8 = Fin 8"
  by (subst float32_pos_eval [where e = 3]) (simp_all add: rne_eval)

lemma float32_half: "float32 (1 / 2) = Fin (1 / 2)"
  by (subst float32_pos_eval [where e = "- 1"]) (simp_all add: rne_eval)


lemma float32_overflow: "float32 (2 ^ 128) = PInf"
  by (subst float32_pos_eval [where e = 128]) (simp_all add: rne_eval)



























section \<open>determineMeanAndStddev\<close>






section \<open>normalizeTensor\<close>

text \<open>
  C6. For a matrix whose rows all have \<open>n\<close> entries and vectors \<open>mean\<close> and \<open>std\<close> of
  length \<open>n\<close>, \<open>normalizeTensor\<close> returns, under every rounding, the matrix whose entry in
  row \<open>i\<close> and column \<open>j\<close> is the entry of the input minus \<open>mean[j]\<close>, divided by
  \<open>std[j]\<close>. Only the vectors passed in are used, whatever the statistics of the matrix
  itself, so statistics taken on one matrix can be applied to another.
\<close>

theorem normalizeTensor_uses_supplied_statistics:
  assumes "\<forall>r\<in>set rows. length r = n" and "length mean = n" and "length std = n"
  shows "normalizeTensor rnd (Tensor (T2 rows)) (Tensor (T1 mean)) (Tensor (T1 std)) =
         Inr (Tensor (T2 (map (\<lambda>r. map (\<lambda>j.
           fdiv rnd (fsub rnd (r ! j) (mean ! j)) (std ! j)) [0..<n]) rows)))"
  using assms by (rule normalizeTensor_formula)

theorem normalizeTensor_uses_supplied_statistics_witness:
  "list_all (\<lambda>r. length r = 2) [[Fin 7, Fin 1], [Fin 9, Fin 5]]
   \<and> length [Fin 3, Fin 4] = 2 \<and> length [Fin 2, Fin 8] = 2
   \<and> normalizeTensor Fin (Tensor (T2 [[Fin 7, Fin 1], [Fin 9, Fin 5]]))
        (Tensor (T1 [Fin 3, Fin 4])) (Tensor (T1 [Fin 2, Fin 8])) =
      Inr (Tensor (T2 [[Fin 2, Fin (- 3 / 8)], [Fin 3, Fin (1 / 8)]]))"
proof -
  have u: "[0..<2] = [0, Suc 0]"
    by (simp add: upt_rec)
  have h: "\<forall>r\<in>set [[Fin 7, Fin 1], [Fin 9, Fin 5]]. length r = 2"
    by simp
  show ?thesis
    using normalizeTensor_uses_supplied_statistics
      [OF h, of "[Fin 3, Fin 4]" "[Fin 2, Fin 8]" Fin]
    by (simp add: u)
qed

section \<open>normalizeTensorWithMinMax\<close>

text \<open>
  C3. On a matrix of finite numbers with at least one row, \<open>normalizeTensorWithMinMax\<close>
  returns, under every rounding, the matrix whose entry in row \<open>i\<close> and column \<open>j\<close> is
  the entry of the input minus the minimum of column \<open>j\<close>, divided by the maximum of
  column \<open>j\<close> minus its minimum (the division of the program: on a constant column it is
  0/0). In exact arithmetic the two differences are the exact ones. On the single column
  1, 3, 5 the result is 0, 1/2, 1, in exact arithmetic and in float32.
\<close>

theorem normalizeTensorWithMinMax_rescales_by_column_range:
  assumes "R \<noteq> []" and "\<forall>r\<in>set R. length r = n"
  shows "normalizeTensorWithMinMax rnd (matrix R) =
           Inr (Tensor (T2 (map (\<lambda>r. map (\<lambda>j.
             fdiv rnd (fsub rnd (Fin (r ! j)) (Fin (Min (set (column R j)))))
                      (fsub rnd (Fin (Max (set (column R j)))) (Fin (Min (set (column R j))))))
               [0..<n]) R)))
         \<and> normalizeTensorWithMinMax Fin (matrix R) =
           Inr (Tensor (T2 (map (\<lambda>r. map (\<lambda>j.
             fdiv Fin (Fin (r ! j - Min (set (column R j))))
                      (Fin (Max (set (column R j)) - Min (set (column R j))))) [0..<n]) R)))
         \<and> normalizeTensorWithMinMax Fin (matrix [[1], [3], [5]]) = Inr (matrix [[0], [1 / 2], [1]])
         \<and> normalizeTensorWithMinMax float32 (matrix [[1], [3], [5]]) =
           Inr (matrix [[0], [1 / 2], [1]])"
proof (intro conjI)
  show "normalizeTensorWithMinMax rnd (matrix R) =
           Inr (Tensor (T2 (map (\<lambda>r. map (\<lambda>j.
             fdiv rnd (fsub rnd (Fin (r ! j)) (Fin (Min (set (column R j)))))
                      (fsub rnd (Fin (Max (set (column R j)))) (Fin (Min (set (column R j))))))
               [0..<n]) R)))"
    using assms by (rule minmax_matrix)
next
  show "normalizeTensorWithMinMax Fin (matrix R) =
           Inr (Tensor (T2 (map (\<lambda>r. map (\<lambda>j.
             fdiv Fin (Fin (r ! j - Min (set (column R j))))
                      (Fin (Max (set (column R j)) - Min (set (column R j))))) [0..<n]) R)))"
    using minmax_matrix [OF assms, of Fin] by (simp del: fdiv.simps)
next
  have ex: "normalizeTensorWithMinMax rnd (matrix [[1], [3], [5]]) =
           Inr (Tensor (T2 (map (\<lambda>r. map (\<lambda>j.
             fdiv rnd (fsub rnd (Fin (r ! j)) (Fin (Min (set (column [[1], [3], [5]] j)))))
                      (fsub rnd (Fin (Max (set (column [[1], [3], [5]] j))))
                                (Fin (Min (set (column [[1], [3], [5]] j))))))
               [0..<1]) [[1], [3], [5]])))" for rnd
    by (rule minmax_matrix) simp_all
  show "normalizeTensorWithMinMax Fin (matrix [[1], [3], [5]]) = Inr (matrix [[0], [1 / 2], [1]])"
    using ex [of Fin] by (simp add: column_def matrix_def)
  show "normalizeTensorWithMinMax float32 (matrix [[1], [3], [5]]) =
           Inr (matrix [[0], [1 / 2], [1]])"
    using ex [of float32]
    by (simp add: column_def matrix_def rounded_def float32_2 float32_4 float32_half float32_one)
qed

theorem normalizeTensorWithMinMax_rescales_by_column_range_witness:
  "[[2, 5], [4, 5], [10, 5]] \<noteq> ([] :: real list list)
   \<and> list_all (\<lambda>r. length r = 2) [[2, 5], [4, 5], [10, 5 :: real]]
   \<and> normalizeTensorWithMinMax Fin (matrix [[2, 5], [4, 5], [10, 5]]) =
       Inr (Tensor (T2 [[Fin 0, NaN], [Fin (1 / 4), NaN], [Fin 1, NaN]]))"
proof -
  have u: "[0..<2] = [0, Suc 0]"
    by (simp add: upt_rec)
  have h1: "[[2, 5], [4, 5], [10, 5]] \<noteq> ([] :: real list list)"
    by simp
  have h2: "\<forall>r\<in>set [[2, 5], [4, 5], [10, 5 :: real]]. length r = 2"
    by simp
  show ?thesis
    using normalizeTensorWithMinMax_rescales_by_column_range [OF h1 h2, of Fin]
    by (simp add: u column_def)
qed

text \<open>
  C8, as amended. Under a rounding that keeps the order, float32 or none, when two
  entries of column \<open>j\<close> differ and the range of the column, its maximum minus its minimum
  as computed, is finite and not zero, column \<open>j\<close> of the result of
  \<open>normalizeTensorWithMinMax\<close> consists of finite numbers between 0 and 1, its minimum is 0
  and its maximum is 1.
\<close>

theorem minmax_column_spans_unit_interval:
  assumes "monotone_rounding rnd"
    and "\<forall>r\<in>set R. length r = n" and "j < n"
    and "a < length R" and "b < length R" and "R ! a ! j \<noteq> R ! b ! j"
    and "rnd (Max (set (column R j)) - Min (set (column R j))) = Fin d" and "d \<noteq> 0"
  shows "\<exists>out ys. normalizeTensorWithMinMax rnd (matrix R) = Inr (Tensor (T2 out))
           \<and> column out j = map Fin ys \<and> length ys = length R
           \<and> Min (set ys) = 0 \<and> Max (set ys) = 1 \<and> (\<forall>y\<in>set ys. 0 \<le> y \<and> y \<le> 1)"
proof -
  let ?col = "column R j"
  let ?mn = "Min (set ?col)"
  let ?mx = "Max (set ?col)"
  let ?e = "\<lambda>x. fdiv rnd (fsub rnd (Fin x) (Fin ?mn)) (fsub rnd (Fin ?mx) (Fin ?mn))"
  let ?out = "map (\<lambda>r. map (\<lambda>j.
             fdiv rnd (fsub rnd (Fin (r ! j)) (Fin (Min (set (column R j)))))
                      (fsub rnd (Fin (Max (set (column R j)))) (Fin (Min (set (column R j))))))
               [0..<n]) R"
  let ?ys = "map (\<lambda>x. fin_value (?e x)) ?col"
  have ne: "R \<noteq> []"
    using assms(4) by auto
  have res: "normalizeTensorWithMinMax rnd (matrix R) = Inr (Tensor (T2 ?out))"
    using ne assms(2) by (rule minmax_matrix)
  have fin: "finite (set ?col)" and nonempty: "set ?col \<noteq> {}"
    using ne by simp_all
  have mem_a: "R ! a ! j \<in> set ?col" and mem_b: "R ! b ! j \<in> set ?col"
    using assms(4,5) by (auto simp add: column_def)
  have lo: "?mn \<le> x" and hi: "x \<le> ?mx" if "x \<in> set ?col" for x
    using that by simp_all
  have "?mn \<noteq> ?mx"
  proof
    assume eq: "?mn = ?mx"
    have "R ! a ! j = ?mn"
      using lo [OF mem_a] hi [OF mem_a] eq by simp
    moreover have "R ! b ! j = ?mn"
      using lo [OF mem_b] hi [OF mem_b] eq by simp
    ultimately show False
      using assms(6) by simp
  qed
  moreover have "?mn \<le> ?mx"
    using lo [OF mem_a] hi [OF mem_a] by simp
  ultimately have w: "0 < ?mx - ?mn"
    by simp
  have range: "fsub rnd (Fin ?mx) (Fin ?mn) = Fin d"
    using w assms(7) by (simp add: rounded_def)
  have "\<exists>a. rounded rnd (?mx - ?mn) = Fin a \<and> 0 \<le> a \<and> a \<le> d"
    using assms(1) _ _ assms(7) w by (rule rounded_between) (use w in simp_all)
  then have d: "0 < d"
    using w assms(7,8) by (auto simp add: rounded_def)
  have one: "rnd 1 = Fin 1"
    using assms(1) by (simp add: monotone_rounding_def)
  have entry: "\<exists>y. ?e x = Fin y \<and> 0 \<le> y \<and> y \<le> 1" if "x \<in> set ?col" for x
  proof -
    have "\<exists>a. rounded rnd (x - ?mn) = Fin a \<and> 0 \<le> a \<and> a \<le> d"
      using assms(1) _ _ assms(7) w by (rule rounded_between) (use lo [OF that] hi [OF that] in simp_all)
    then obtain a where a: "fsub rnd (Fin x) (Fin ?mn) = Fin a" and a0: "0 \<le> a" and ad: "a \<le> d"
      by auto
    have "\<exists>y. rounded rnd (a / d) = Fin y \<and> 0 \<le> y \<and> y \<le> 1"
      using assms(1) _ _ one by (rule rounded_between) (use a0 ad d in simp_all)
    moreover have "?e x = fdiv rnd (Fin a) (Fin d)"
      by (simp only: a range)
    ultimately show ?thesis
      using d by simp
  qed
  have fv: "?e x = Fin (fin_value (?e x))" if "x \<in> set ?col" for x
    using entry [OF that] by (auto simp add: fin_value_def)
  have colout: "column ?out j = map Fin ?ys"
    using assms(3) fv by (simp add: column_def del: fsub.simps fdiv.simps)
  have bounds: "0 \<le> y \<and> y \<le> 1" if "y \<in> set ?ys" for y
  proof -
    from that obtain x where x: "x \<in> set ?col" and y: "y = fin_value (?e x)"
      by auto
    show ?thesis
      unfolding y using entry [OF x] by (auto simp add: fin_value_def)
  qed
  have mn_mem: "?mn \<in> set ?col"
    using fin nonempty by (rule Min_in)
  have mx_mem: "?mx \<in> set ?col"
    using fin nonempty by (rule Max_in)
  have "fsub rnd (Fin ?mn) (Fin ?mn) = Fin 0"
    by (simp add: rounded_def)
  then have "?e ?mn = fdiv rnd (Fin 0) (Fin d)"
    by (simp only: range)
  then have "?e ?mn = Fin 0"
    using d by (simp add: rounded_def)
  then have "fin_value (?e ?mn) = 0"
    by (simp add: fin_value_def)
  then have zero_mem: "0 \<in> set ?ys"
    using mn_mem by (metis (no_types, lifting) image_eqI set_map)
  have "?e ?mx = fdiv rnd (Fin d) (Fin d)"
    by (simp only: range)
  then have "?e ?mx = Fin 1"
    using d one by (simp add: rounded_def)
  then have "fin_value (?e ?mx) = 1"
    by (simp add: fin_value_def)
  then have one_mem: "1 \<in> set ?ys"
    using mx_mem by (metis (no_types, lifting) image_eqI set_map)
  have "Min (set ?ys) = 0"
    using bounds zero_mem by (intro Min_eqI) auto
  moreover have "Max (set ?ys) = 1"
    using bounds one_mem by (intro Max_eqI) auto
  ultimately show ?thesis
    using res colout bounds by (intro exI [of _ ?out] exI [of _ ?ys]) simp
qed

theorem minmax_column_spans_unit_interval_witness:
  "monotone_rounding float32
   \<and> list_all (\<lambda>r. length r = 2) [[2, 5], [4, 5], [10, 5 :: real]]
   \<and> (0 :: nat) < 2 \<and> (0 :: nat) < length [[2, 5], [4, 5], [10, 5 :: real]]
   \<and> (2 :: nat) < length [[2, 5], [4, 5], [10, 5 :: real]]
   \<and> [[2, 5], [4, 5], [10, 5 :: real]] ! 0 ! 0 \<noteq> [[2, 5], [4, 5], [10, 5]] ! 2 ! 0
   \<and> float32 (Max (set (column [[2, 5], [4, 5], [10, 5]] 0))
                - Min (set (column [[2, 5], [4, 5], [10, 5]] 0))) = Fin 8
   \<and> (\<exists>out ys. normalizeTensorWithMinMax float32 (matrix [[2, 5], [4, 5], [10, 5]]) =
                   Inr (Tensor (T2 out))
           \<and> column out 0 = map Fin ys \<and> length ys = length [[2, 5], [4, 5], [10, 5 :: real]]
           \<and> Min (set ys) = 0 \<and> Max (set ys) = 1 \<and> (\<forall>y\<in>set ys. 0 \<le> y \<and> y \<le> 1))"
proof -
  have h1: "\<forall>r\<in>set [[2, 5], [4, 5], [10, 5 :: real]]. length r = 2"
    by simp
  have h2: "(0 :: nat) < 2"
    by simp
  have h3: "(0 :: nat) < length [[2, 5], [4, 5], [10, 5 :: real]]"
    by simp
  have h4: "(2 :: nat) < length [[2, 5], [4, 5], [10, 5 :: real]]"
    by simp
  have h5: "[[2, 5], [4, 5], [10, 5 :: real]] ! 0 ! 0 \<noteq> [[2, 5], [4, 5], [10, 5]] ! 2 ! 0"
    by simp
  have h6: "float32 (Max (set (column [[2, 5], [4, 5], [10, 5]] 0))
                - Min (set (column [[2, 5], [4, 5], [10, 5]] 0))) = Fin 8"
    by (simp add: column_def float32_8)
  have h7: "(8 :: real) \<noteq> 0"
    by simp
  have "\<exists>out ys. normalizeTensorWithMinMax float32 (matrix [[2, 5], [4, 5], [10, 5]]) =
                   Inr (Tensor (T2 out))
           \<and> column out 0 = map Fin ys \<and> length ys = length [[2, 5], [4, 5], [10, 5 :: real]]
           \<and> Min (set ys) = 0 \<and> Max (set ys) = 1 \<and> (\<forall>y\<in>set ys. 0 \<le> y \<and> y \<le> 1)"
    by (rule minmax_column_spans_unit_interval
        [OF monotone_rounding_float32 h1 h2 h3 h4 h5 h6 h7])
  then show ?thesis
    using monotone_rounding_float32 h3 h4 h5 h6 by simp
qed

text \<open>
  The claim without the amendment fails where the range is not finite. In float32 the
  column -2^127, 2^127 has the range 2^128, which overflows to infinity, and the result
  is 0, NaN. A column with an infinite entry, here infinity and 1, gives NaN and 0.
\<close>

theorem minmax_overflow_counterexample:
  "- (2 ^ 127) \<noteq> (2 ^ 127 :: real)
   \<and> normalizeTensorWithMinMax float32 (matrix [[- (2 ^ 127)], [2 ^ 127]]) =
       Inr (Tensor (T2 [[Fin 0], [NaN]]))
   \<and> normalizeTensorWithMinMax float32 (Tensor (T2 [[PInf], [Fin 1]])) =
       Inr (Tensor (T2 [[NaN], [Fin 0]]))"
proof -
  have "normalizeTensorWithMinMax float32 (matrix [[- (2 ^ 127)], [2 ^ 127]]) =
           Inr (Tensor (T2 (map (\<lambda>r. map (\<lambda>j.
             fdiv float32
               (fsub float32 (Fin (r ! j)) (Fin (Min (set (column [[- (2 ^ 127)], [2 ^ 127]] j)))))
               (fsub float32 (Fin (Max (set (column [[- (2 ^ 127)], [2 ^ 127]] j))))
                             (Fin (Min (set (column [[- (2 ^ 127)], [2 ^ 127]] j))))))
               [0..<1]) [[- (2 ^ 127)], [2 ^ 127]])))"
    by (rule minmax_matrix) simp_all
  moreover have "float32 340282366920938463463374607431768211456 = PInf"
    using float32_overflow by simp
  ultimately have finite_entries:
    "normalizeTensorWithMinMax float32 (matrix [[- (2 ^ 127)], [2 ^ 127]]) =
       Inr (Tensor (T2 [[Fin 0], [NaN]]))"
    by (simp add: column_def rounded_def)
  have "normalizeTensorWithMinMax float32 (Tensor (T2 [[PInf], [Fin 1]])) =
       Inr (Tensor (T2 (map (\<lambda>r. map (\<lambda>j.
            fdiv float32 (fsub float32 (r ! j) (rmin (column [[PInf], [Fin 1]] j)))
                 (fsub float32 (rmax (column [[PInf], [Fin 1]] j))
                    (rmin (column [[PInf], [Fin 1]] j))))
              [0..<ncols [[PInf], [Fin 1]]]) [[PInf], [Fin 1]])))"
    by (rule minmax_formula) (simp add: ncols_def)
  then have infinite_entry:
    "normalizeTensorWithMinMax float32 (Tensor (T2 [[PInf], [Fin 1]])) =
       Inr (Tensor (T2 [[NaN], [Fin 0]]))"
    by (simp add: ncols_def column_def rounded_def)
  show ?thesis
    using finite_entries infinite_entry by simp
qed

section \<open>Division by zero\<close>

lemma fdiv_zero_range: "fdiv rnd (fsub rnd c c) (fsub rnd c c) = NaN"
  by (cases c) (simp_all add: rounded_def)

lemma fdiv_by_zero: "is_nan_or_inf (fdiv rnd x (Fin 0))"
  by (cases x) (simp_all add: is_nan_or_inf_def)

text \<open>
  C9. The two edge cases return, they do not raise, under every rounding.
  \<open>normalizeTensor\<close> with \<open>std[j] = 0\<close> returns a matrix whose column \<open>j\<close> holds only NaN
  and infinities; \<open>normalizeTensorWithMinMax\<close> on a matrix whose column \<open>j\<close> is constant
  returns a matrix whose column \<open>j\<close> holds only NaN.
\<close>

theorem division_by_zero_yields_nan_or_infinity:
  "((\<forall>r\<in>set rows. length r = n) \<and> length mean = n \<and> length std = n \<and> j < n
      \<and> std ! j = Fin 0
    \<longrightarrow> (\<exists>out. normalizeTensor rnd (Tensor (T2 rows)) (Tensor (T1 mean)) (Tensor (T1 std)) =
                 Inr (Tensor (T2 out))
             \<and> length out = length rows \<and> (\<forall>i<length rows. is_nan_or_inf (out ! i ! j))))
   \<and> ((\<forall>r\<in>set data. length r = n) \<and> j < n \<and> (\<forall>r\<in>set data. r ! j = c)
    \<longrightarrow> (\<exists>out. normalizeTensorWithMinMax rnd (Tensor (T2 data)) = Inr (Tensor (T2 out))
             \<and> length out = length data \<and> (\<forall>i<length data. out ! i ! j = NaN)))"
proof (intro conjI impI; elim conjE)
  assume rect: "\<forall>r\<in>set rows. length r = n" and m: "length mean = n" and s: "length std = n"
    and j: "j < n" and z: "std ! j = Fin 0"
  let ?out = "map (\<lambda>r. map (\<lambda>j. fdiv rnd (fsub rnd (r ! j) (mean ! j)) (std ! j)) [0..<n]) rows"
  have "normalizeTensor rnd (Tensor (T2 rows)) (Tensor (T1 mean)) (Tensor (T1 std)) =
        Inr (Tensor (T2 ?out))"
    using rect m s by (rule normalizeTensor_formula)
  moreover have "is_nan_or_inf (?out ! i ! j)" if "i < length rows" for i
    using that j z by (simp add: fdiv_by_zero)
  ultimately show "\<exists>out. normalizeTensor rnd (Tensor (T2 rows)) (Tensor (T1 mean)) (Tensor (T1 std)) =
                 Inr (Tensor (T2 out))
             \<and> length out = length rows \<and> (\<forall>i<length rows. is_nan_or_inf (out ! i ! j))"
    by (intro exI [of _ ?out]) simp
next
  assume rect: "\<forall>r\<in>set data. length r = n" and j: "j < n" and const: "\<forall>r\<in>set data. r ! j = c"
  show "\<exists>out. normalizeTensorWithMinMax rnd (Tensor (T2 data)) = Inr (Tensor (T2 out))
             \<and> length out = length data \<and> (\<forall>i<length data. out ! i ! j = NaN)"
  proof (cases "data = []")
    case True
    have "normalizeTensorWithMinMax rnd (Tensor (T2 [])) = Inr (Tensor (T2 []))"
      using minmax_formula [of "[]" rnd] by simp
    then show ?thesis
      using True by simp
  next
    case False
    let ?out = "map (\<lambda>r. map (\<lambda>j.
            fdiv rnd (fsub rnd (r ! j) (rmin (column data j)))
                 (fsub rnd (rmax (column data j)) (rmin (column data j)))) [0..<n]) data"
    have n: "ncols data = n"
      using False rect by (rule ncols_rect)
    have res: "normalizeTensorWithMinMax rnd (Tensor (T2 data)) = Inr (Tensor (T2 ?out))"
      using minmax_formula [of data rnd] rect by (simp add: n)
    have col: "\<forall>x\<in>set (column data j). x = c"
      using const by (simp add: column_def)
    have mn: "rmin (column data j) = c"
      using False col by (intro rmin_constant) simp_all
    have mx: "rmax (column data j) = c"
      using False col by (intro rmax_constant) simp_all
    have "?out ! i ! j = NaN" if "i < length data" for i
      using that j const by (simp add: mn mx fdiv_zero_range)
    then show ?thesis
      using res by (intro exI [of _ ?out]) simp
  qed
qed

theorem division_by_zero_yields_nan_or_infinity_witness:
  "list_all (\<lambda>r. length r = 2) [[Fin 1, Fin 2], [Fin 3, Fin 4], [Fin 5, Fin 6]]
   \<and> [Fin 2, Fin 0] ! 1 = Fin 0
   \<and> (\<exists>out. normalizeTensor float32 (Tensor (T2 [[Fin 1, Fin 2], [Fin 3, Fin 4], [Fin 5, Fin 6]]))
                (Tensor (T1 [Fin 3, Fin 4])) (Tensor (T1 [Fin 2, Fin 0])) = Inr (Tensor (T2 out))
         \<and> length out = length [[Fin 1, Fin 2], [Fin 3, Fin 4], [Fin 5, Fin 6]]
         \<and> (\<forall>i<length [[Fin 1, Fin 2], [Fin 3, Fin 4], [Fin 5, Fin 6]]. is_nan_or_inf (out ! i ! 1)))
   \<and> list_all (\<lambda>r. length r = 2) [[Fin 1, Fin 7], [Fin 3, Fin 7]]
   \<and> list_all (\<lambda>r. r ! 1 = Fin 7) [[Fin 1, Fin 7], [Fin 3, Fin 7]]
   \<and> (\<exists>out. normalizeTensorWithMinMax float32 (Tensor (T2 [[Fin 1, Fin 7], [Fin 3, Fin 7]])) =
                Inr (Tensor (T2 out))
         \<and> length out = length [[Fin 1, Fin 7], [Fin 3, Fin 7]]
         \<and> (\<forall>i<length [[Fin 1, Fin 7], [Fin 3, Fin 7]]. out ! i ! 1 = NaN))"
proof -
  note both = division_by_zero_yields_nan_or_infinity
    [of "[[Fin 1, Fin 2], [Fin 3, Fin 4], [Fin 5, Fin 6]]" 2 "[Fin 3, Fin 4]" "[Fin 2, Fin 0]" 1
        float32 "[[Fin 1, Fin 7], [Fin 3, Fin 7]]" "Fin 7"]
  have a: "(\<forall>r\<in>set [[Fin 1, Fin 2], [Fin 3, Fin 4], [Fin 5, Fin 6]]. length r = 2)
      \<and> length [Fin 3, Fin 4] = 2 \<and> length [Fin 2, Fin 0] = 2 \<and> (1 :: nat) < 2
      \<and> [Fin 2, Fin 0] ! 1 = Fin 0"
    by simp
  have b: "(\<forall>r\<in>set [[Fin 1, Fin 7], [Fin 3, Fin 7]]. length r = 2) \<and> (1 :: nat) < 2
      \<and> (\<forall>r\<in>set [[Fin 1, Fin 7], [Fin 3, Fin 7]]. r ! 1 = Fin 7)"
    by simp
  from both [THEN conjunct1, THEN mp, OF a] both [THEN conjunct2, THEN mp, OF b]
  show ?thesis
    by simp
qed

section \<open>normalizeTensorWithZScore\<close>

text \<open>
  \<open>determineMeanAndStddev\<close> returns its statistics under the keys \<open>dataMean\<close> and
  \<open>dataStd\<close>; \<open>normalizeTensorWithZScore\<close> reads the keys \<open>mean\<close> and \<open>std\<close>, which
  the object does not have, and passes \<open>undefined\<close> on to \<open>normalizeTensor\<close>.
\<close>

lemma determineMeanAndStddev_returns:
  assumes "determineMeanAndStddev rnd (Tensor t) = Inr stats"
  shows "\<exists>a b. stats = Object [(''dataMean'', a), (''dataStd'', b)]"
  using assms unfolding determineMeanAndStddev_def bindE_def
  by (auto split: sum.splits)

lemma sub_undefined: "invoke rnd (Tensor t) ''sub'' [Undefined] = Inl (NotATensor ''sub'')"
  by (simp add: invoke_sub)

lemma zscore_raises:
  "normalizeTensorWithZScore rnd (Tensor t) =
     (case determineMeanAndStddev rnd (Tensor t) of
        Inl e \<Rightarrow> Inl e
      | Inr stats \<Rightarrow> Inl (NotATensor ''sub''))"
proof (cases "determineMeanAndStddev rnd (Tensor t)")
  case (Inl e)
  then show ?thesis
    by (simp add: normalizeTensorWithZScore_def)
next
  case (Inr stats)
  then obtain a b where "stats = Object [(''dataMean'', a), (''dataStd'', b)]"
    using determineMeanAndStddev_returns by blast
  then show ?thesis
    using Inr by (simp add: normalizeTensorWithZScore_def normalizeTensor_def sub_undefined)
qed

text \<open>
  C1. The specification equates \<open>normalizeTensorWithZScore\<close> with the composition of
  \<open>determineMeanAndStddev\<close> and \<open>normalizeTensor\<close>. On the matrix with rows [1,2], [3,4],
  [5,6] \<open>normalizeTensorWithZScore\<close> raises, under every rounding, the error of \<open>sub\<close>
  for an operand that is not a tensor; the composition returns, in exact arithmetic the
  z-scores.
\<close>

theorem zscore_raises_where_composition_returns:
  "normalizeTensorWithZScore rnd (matrix [[1, 2], [3, 4], [5, 6]]) = Inl (NotATensor ''sub'')
   \<and> spec_normalizeWithZScore Fin (matrix [[1, 2], [3, 4], [5, 6]]) =
       Inr (matrix [[- 2 / sqrt (8 / 3), - 2 / sqrt (8 / 3)], [0, 0],
                    [2 / sqrt (8 / 3), 2 / sqrt (8 / 3)]])"
proof -
  have u: "[0..<2] = [0, Suc 0]"
    by (simp add: upt_rec)
  have returns: "determineMeanAndStddev rnd (matrix [[1, 2], [3, 4], [5, 6]]) =
         Inr (Object
           [(''dataMean'', Tensor (T1 (map (\<lambda>j. computed_mean rnd
               (column [[1, 2], [3, 4], [5, 6]] j)) [0..<2]))),
            (''dataStd'', Tensor (T1 (map (\<lambda>j. computed_stddev rnd
               (column [[1, 2], [3, 4], [5, 6]] j)) [0..<2])))])"
    by (rule determineMeanAndStddev_computed) simp_all
  have stats: "determineMeanAndStddev Fin (matrix [[1, 2], [3, 4], [5, 6]]) =
           Inr (Object
             [(''dataMean'', Tensor (T1 [Fin 3, Fin 4])),
              (''dataStd'', Tensor (T1 [Fin (sqrt (8 / 3)), Fin (sqrt (8 / 3))]))])"
    using determineMeanAndStddev_matrix [of "[[1, 2], [3, 4], [5, 6]]" 2]
    by (simp add: u column_def average_def population_stddev_def)
  have norm: "normalizeTensor Fin (matrix [[1, 2], [3, 4], [5, 6]])
          (Tensor (T1 [Fin 3, Fin 4])) (Tensor (T1 [Fin (sqrt (8 / 3)), Fin (sqrt (8 / 3))])) =
        Inr (matrix [[- 2 / sqrt (8 / 3), - 2 / sqrt (8 / 3)], [0, 0],
                    [2 / sqrt (8 / 3), 2 / sqrt (8 / 3)]])"
    using normalizeTensor_formula [of "map (map Fin) [[1, 2], [3, 4], [5, 6]]" 2
        "[Fin 3, Fin 4]" "[Fin (sqrt (8 / 3)), Fin (sqrt (8 / 3))]" Fin]
    by (simp add: u matrix_def)
  have "normalizeTensorWithZScore rnd (matrix [[1, 2], [3, 4], [5, 6]]) = Inl (NotATensor ''sub'')"
    using returns by (simp add: matrix_def zscore_raises)
  moreover have "spec_normalizeWithZScore Fin (matrix [[1, 2], [3, 4], [5, 6]]) =
       Inr (matrix [[- 2 / sqrt (8 / 3), - 2 / sqrt (8 / 3)], [0, 0],
                    [2 / sqrt (8 / 3), 2 / sqrt (8 / 3)]])"
    by (simp add: spec_normalizeWithZScore_def stats norm)
  ultimately show ?thesis by simp
qed

text \<open>
  What the specification says of the output of the z-score transform does hold of the
  composition in exact arithmetic: a column with two different entries comes out with
  average 0 and population standard deviation 1.
\<close>

lemma member_le_sum_list_real:
  fixes ys :: "real list"
  assumes "\<forall>y\<in>set ys. 0 \<le> y" and "y \<in> set ys"
  shows "y \<le> sum_list ys"
  using assms
proof (induction ys)
  case Nil
  then show ?case by simp
next
  case (Cons z zs)
  have "0 \<le> sum_list zs"
    using Cons.prems(1) by (intro sum_list_nonneg) simp
  moreover have "0 \<le> z"
    using Cons.prems(1) by simp
  ultimately show ?case
    using Cons by auto
qed

lemma sum_list_pos_real:
  fixes ys :: "real list"
  assumes "\<forall>y\<in>set ys. 0 \<le> y" and "y \<in> set ys" and "0 < y"
  shows "0 < sum_list ys"
  using member_le_sum_list_real [OF assms(1,2)] assms(3) by simp

lemma sum_list_shift:
  fixes xs :: "real list"
  shows "sum_list (map (\<lambda>x. x - m) xs) = sum_list xs - real (length xs) * m"
  by (induction xs) (simp_all add: algebra_simps)

lemma average_scale:
  "average (map (\<lambda>x. f x / c) xs) = average (map f xs) / c"
proof -
  have "sum_list (map (\<lambda>x. f x / c) xs) = sum_list (map f xs) / c"
    by (induction xs) (simp_all add: add_divide_distrib)
  then show ?thesis
    by (simp add: average_def)
qed

lemma average_shift_scale:
  assumes "xs \<noteq> []"
  shows "average (map (\<lambda>x. (x - m) / s) xs) = (average xs - m) / s"
proof -
  have "average (map (\<lambda>x. (x - m) / s) xs) = average (map (\<lambda>x. x - m) xs) / s"
    by (rule average_scale)
  also have "average (map (\<lambda>x. x - m) xs) = average xs - m"
    using assms by (simp add: average_def sum_list_shift diff_divide_distrib)
  finally show ?thesis .
qed

lemma population_stddev_pos:
  assumes "a \<in> set xs" and "b \<in> set xs" and "a \<noteq> b"
  shows "0 < population_stddev xs"
proof -
  obtain x where x: "x \<in> set xs" and ne: "x \<noteq> average xs"
    using assms by (cases "a = average xs") auto
  let ?sq = "map (\<lambda>x. (x - average xs)\<^sup>2) xs"
  have "0 < sum_list ?sq"
  proof (rule sum_list_pos_real)
    show "\<forall>y\<in>set ?sq. 0 \<le> y" by simp
    show "(x - average xs)\<^sup>2 \<in> set ?sq" using x by simp
    show "0 < (x - average xs)\<^sup>2" using ne by simp
  qed
  moreover have "0 < length xs"
    using x by (cases xs) simp_all
  ultimately have "0 < average ?sq"
    by (simp add: average_def)
  then show ?thesis
    by (simp add: population_stddev_def)
qed

lemma standardised_column:
  assumes "a \<in> set xs" and "b \<in> set xs" and "a \<noteq> b"
  defines "zs \<equiv> map (\<lambda>x. (x - average xs) / population_stddev xs) xs"
  shows "average zs = 0" and "population_stddev zs = 1"
proof -
  let ?s = "population_stddev xs"
  let ?v = "average (map (\<lambda>x. (x - average xs)\<^sup>2) xs)"
  have ne: "xs \<noteq> []"
    using assms(1) by auto
  have s: "0 < ?s"
    using assms(1-3) by (rule population_stddev_pos)
  show avg: "average zs = 0"
    unfolding zs_def by (simp add: average_shift_scale [OF ne])
  have v: "0 \<le> ?v"
    by (intro average_nonneg) simp
  have s2: "?s\<^sup>2 = ?v"
    using v by (simp add: population_stddev_def)
  have "map (\<lambda>z. (z - average zs)\<^sup>2) zs = map (\<lambda>x. (x - average xs)\<^sup>2 / ?s\<^sup>2) xs"
    unfolding avg by (simp add: zs_def power_divide)
  then have "average (map (\<lambda>z. (z - average zs)\<^sup>2) zs) = ?v / ?s\<^sup>2"
    by (simp only: average_scale)
  also have "\<dots> = 1"
    using s by (simp add: s2 [symmetric])
  finally show "population_stddev zs = 1"
    by (simp add: population_stddev_def)
qed

lemma spec_normalizeWithZScore_matrix:
  assumes "R \<noteq> []" and "\<forall>r\<in>set R. length r = n"
  shows "spec_normalizeWithZScore Fin (matrix R) =
         Inr (Tensor (T2 (map (\<lambda>r. map (\<lambda>j.
           fdiv Fin (Fin (r ! j - average (column R j))) (Fin (population_stddev (column R j))))
             [0..<n]) R)))"
proof -
  let ?mean = "map (\<lambda>j. Fin (average (column R j))) [0..<n]"
  let ?std = "map (\<lambda>j. Fin (population_stddev (column R j))) [0..<n]"
  have stats: "determineMeanAndStddev Fin (matrix R) =
      Inr (Object [(''dataMean'', Tensor (T1 ?mean)), (''dataStd'', Tensor (T1 ?std))])"
    using assms by (rule determineMeanAndStddev_matrix)
  have "normalizeTensor Fin (Tensor (T2 (map (map Fin) R))) (Tensor (T1 ?mean)) (Tensor (T1 ?std)) =
        Inr (Tensor (T2 (map (\<lambda>r. map (\<lambda>j. fdiv Fin (fsub Fin (r ! j) (?mean ! j)) (?std ! j)) [0..<n])
          (map (map Fin) R))))"
    using assms by (intro normalizeTensor_formula) simp_all
  moreover have "map (\<lambda>r. map (\<lambda>j. fdiv Fin (fsub Fin (r ! j) (?mean ! j)) (?std ! j)) [0..<n])
          (map (map Fin) R) =
        map (\<lambda>r. map (\<lambda>j.
           fdiv Fin (Fin (r ! j - average (column R j))) (Fin (population_stddev (column R j))))
             [0..<n]) R"
    using assms by (simp del: fdiv.simps)
  ultimately have norm: "normalizeTensor Fin (matrix R) (Tensor (T1 ?mean)) (Tensor (T1 ?std)) =
        Inr (Tensor (T2 (map (\<lambda>r. map (\<lambda>j.
           fdiv Fin (Fin (r ! j - average (column R j))) (Fin (population_stddev (column R j))))
             [0..<n]) R)))"
    by (simp only: matrix_def)
  show ?thesis
    unfolding spec_normalizeWithZScore_def stats by (simp add: norm)
qed

lemma spec_normalizeWithZScore_standardises:
  assumes "\<forall>r\<in>set R. length r = n" and "j < n"
    and "a < length R" and "b < length R" and "R ! a ! j \<noteq> R ! b ! j"
  shows "\<exists>out zs. spec_normalizeWithZScore Fin (matrix R) = Inr (Tensor (T2 out))
           \<and> column out j = map Fin zs \<and> average zs = 0 \<and> population_stddev zs = 1"
proof -
  let ?col = "column R j"
  let ?out = "map (\<lambda>r. map (\<lambda>j.
           fdiv Fin (Fin (r ! j - average (column R j))) (Fin (population_stddev (column R j))))
             [0..<n]) R"
  let ?zs = "map (\<lambda>x. (x - average ?col) / population_stddev ?col) ?col"
  have ne: "R \<noteq> []"
    using assms(3) by auto
  have res: "spec_normalizeWithZScore Fin (matrix R) = Inr (Tensor (T2 ?out))"
    using ne assms(1) by (rule spec_normalizeWithZScore_matrix)
  have mem: "R ! a ! j \<in> set ?col" "R ! b ! j \<in> set ?col"
    using assms(3,4) by (auto simp add: column_def)
  have pos: "0 < population_stddev ?col"
    using mem assms(5) by (rule population_stddev_pos)
  have col: "column ?out j = map Fin ?zs"
    using assms(2) pos by (simp add: column_def)
  have "average ?zs = 0" and "population_stddev ?zs = 1"
    using mem assms(5) by (rule standardised_column)+
  with res col show ?thesis
    by blast
qed

text \<open>
  C7. The specification gives every column of the output of \<open>normalizeTensorWithZScore\<close>
  mean 0 and standard deviation 1. The function has no output: whatever tensor it is given
  and whatever the rounding, it raises.
\<close>

theorem normalizeTensorWithZScore_never_returns:
  "normalizeTensorWithZScore rnd (Tensor t) \<noteq> Inr out"
  by (simp add: zscore_raises split: sum.splits)

section \<open>normalizeTensorWithLogScaling\<close>

text \<open>
  Where the environment binds the global \<open>tf\<close> to the TensorFlow.js namespace, the
  transform returns, in exact arithmetic, the logarithm to base 10 of every entry of a
  positive matrix.
\<close>

lemma log_scaling_with_tf:
  assumes "g ''tf'' = Some TfNamespace" and "\<forall>r\<in>set R. \<forall>x\<in>set r. 0 < x"
  shows "normalizeTensorWithLogScaling Fin g (matrix R) = Inr (matrix (map (map (log 10)) R))"
proof -
  have entry: "fdiv Fin (flog Fin (Fin x)) (Fin (ln 10)) = Fin (log 10 x)" if "0 < x" for x
    using that by (simp add: log_def)
  have "map (map (\<lambda>x. fdiv Fin x (Fin (ln 10)))) (map (map (flog Fin)) (map (map Fin) R)) =
        map (map Fin) (map (map (log 10)) R)"
    using assms(2) by (auto simp add: entry simp del: fdiv.simps flog.simps)
  then show ?thesis
    using assms(1)
    by (simp add: normalizeTensorWithLogScaling_def matrix_def invoke_log invoke_div global_ref_def
        invoke.simps(2) arg_def broadcast_T2_T0 store_def)
qed

text \<open>
  C4. The specification has \<open>normalizeTensorWithLogScaling\<close> return the logarithm to base
  10 of every entry. The module neither imports nor declares \<open>tf\<close>; evaluated where no
  global of that name exists, the function raises a ReferenceError, here on the matrix
  whose four entries are 10.
\<close>

theorem log_scaling_fails_without_global_tf:
  "normalizeTensorWithLogScaling rnd (\<lambda>x. None) (matrix [[10, 10], [10, 10]]) = Inl (ReferenceError ''tf'')"
  by (simp add: normalizeTensorWithLogScaling_def matrix_def invoke_log global_ref_def)

section \<open>normalizeTensorWithRobustScaling\<close>

text \<open>
  The second slice of the function, \<open>slice([2], [3])\<close>, asks for three rows from row 2 on:
  on a tensor of three rows, one per quartile, it is out of range.
\<close>

lemma slice_upper_quartile_out_of_range:
  "invoke rnd (Tensor (T2 [q1, q2, q3])) ''slice'' [Array [Number (Fin 2)], Array [Number (Fin 3)]] =
     Inl SliceError"
  by (simp add: invoke.simps tensor_methods_def t_slice_def as_index_def arg_def slice_list_def)

text \<open>
  C5. The specification has \<open>normalizeTensorWithRobustScaling\<close> return the entries minus
  the column median, divided by the interquartile range. The first call of the function,
  \<open>data.median(0)\<close>, is to a method that tensors do not have, and the function raises a
  TypeError, here on the single column 1, 2, 3, 4, 5.
\<close>

theorem robust_scaling_fails_on_missing_median:
  "normalizeTensorWithRobustScaling rnd (matrix [[1], [2], [3], [4], [5]]) = Inl (NotAFunction ''median'')"
  by (simp add: normalizeTensorWithRobustScaling_def matrix_def invoke_median)

section \<open>Shapes\<close>

text \<open>
  \<open>normalizeTensor\<close> and \<open>normalizeTensorWithMinMax\<close> return a matrix with as many rows
  and columns as their input.
\<close>

lemma normalizeTensor_preserves_shape:
  assumes "\<forall>r\<in>set rows. length r = n" and "length mean = n" and "length std = n"
  shows "\<exists>out. normalizeTensor rnd (Tensor (T2 rows)) (Tensor (T1 mean)) (Tensor (T1 std)) =
           Inr (Tensor (T2 out)) \<and> length out = length rows \<and> (\<forall>r\<in>set out. length r = n)"
  using normalizeTensor_formula [OF assms] by auto

lemma normalizeTensorWithMinMax_preserves_shape:
  assumes "rows \<noteq> []" and "\<forall>r\<in>set rows. length r = n"
  shows "\<exists>out. normalizeTensorWithMinMax rnd (Tensor (T2 rows)) = Inr (Tensor (T2 out))
           \<and> length out = length rows \<and> (\<forall>r\<in>set out. length r = n)"
proof -
  have n: "ncols rows = n"
    using assms by (rule ncols_rect)
  show ?thesis
    using minmax_formula [of rows rnd] assms(2) by (auto simp add: n)
qed

text \<open>
  C10. The specification has each of the five transforms return a matrix of the shape of
  its input. Three of them return nothing on the matrix with rows [1,2], [3,4]:
  \<open>normalizeTensorWithZScore\<close>, \<open>normalizeTensorWithLogScaling\<close> (without a global \<open>tf\<close>)
  and \<open>normalizeTensorWithRobustScaling\<close> raise.
\<close>

theorem three_transforms_return_no_matrix:
  "normalizeTensorWithZScore rnd (matrix [[1, 2], [3, 4]]) = Inl (NotATensor ''sub'')
   \<and> normalizeTensorWithLogScaling rnd (\<lambda>x. None) (matrix [[1, 2], [3, 4]]) =
       Inl (ReferenceError ''tf'')
   \<and> normalizeTensorWithRobustScaling rnd (matrix [[1, 2], [3, 4]]) = Inl (NotAFunction ''median'')"
proof -
  have "determineMeanAndStddev rnd (matrix [[1, 2], [3, 4]]) =
         Inr (Object
           [(''dataMean'', Tensor (T1 (map (\<lambda>j. computed_mean rnd
               (column [[1, 2], [3, 4]] j)) [0..<2]))),
            (''dataStd'', Tensor (T1 (map (\<lambda>j. computed_stddev rnd
               (column [[1, 2], [3, 4]] j)) [0..<2])))])"
    by (rule determineMeanAndStddev_computed) simp_all
  then have "normalizeTensorWithZScore rnd (matrix [[1, 2], [3, 4]]) = Inl (NotATensor ''sub'')"
    by (simp add: matrix_def zscore_raises)
  moreover have "normalizeTensorWithLogScaling rnd (\<lambda>x. None) (matrix [[1, 2], [3, 4]]) =
      Inl (ReferenceError ''tf'')"
    by (simp add: normalizeTensorWithLogScaling_def matrix_def invoke_log global_ref_def)
  moreover have "normalizeTensorWithRobustScaling rnd (matrix [[1, 2], [3, 4]]) =
      Inl (NotAFunction ''median'')"
    by (simp add: normalizeTensorWithRobustScaling_def matrix_def invoke_median)
  ultimately show ?thesis by simp
qed


end
